theory Spec2Isabelle
  imports Complex_Main "HOL-Library.Word"
begin

section \<open>Numbers of the calculator\<close>

text \<open>
  The calculator \<^verbatim>\<open>IrisToRenderDataCalculator\<close> computes with C++ \<^verbatim>\<open>float\<close>.  A value
  is modelled as a real number or one of the three special values of IEEE 754 arithmetic.
  The special values follow the IEEE rules (an infinity absorbs finite values, a NaN
  absorbs everything, every comparison with a NaN is false, \<^verbatim>\<open>std::isinf\<close> holds of the
  two infinities only).  On finite values the operations are the exact real ones:
  rounding, overflow of a finite result to an infinity, underflow and the sign of zero
  are outside this model.
\<close>

datatype flt = Fin real | PInf | NInf | NaN

fun fadd :: "flt \<Rightarrow> flt \<Rightarrow> flt" where
  "fadd NaN b = NaN"
| "fadd a NaN = NaN"
| "fadd (Fin a) (Fin b) = Fin (a + b)"
| "fadd PInf NInf = NaN"
| "fadd NInf PInf = NaN"
| "fadd PInf b = PInf"
| "fadd a PInf = PInf"
| "fadd NInf b = NInf"
| "fadd a NInf = NInf"

fun fneg :: "flt \<Rightarrow> flt" where
  "fneg (Fin a) = Fin (- a)"
| "fneg PInf = NInf"
| "fneg NInf = PInf"
| "fneg NaN = NaN"

fun fmul :: "flt \<Rightarrow> flt \<Rightarrow> flt" where
  "fmul NaN b = NaN"
| "fmul a NaN = NaN"
| "fmul (Fin a) (Fin b) = Fin (a * b)"
| "fmul (Fin a) PInf = (if a = 0 then NaN else if 0 < a then PInf else NInf)"
| "fmul (Fin a) NInf = (if a = 0 then NaN else if 0 < a then NInf else PInf)"
| "fmul PInf (Fin b) = (if b = 0 then NaN else if 0 < b then PInf else NInf)"
| "fmul NInf (Fin b) = (if b = 0 then NaN else if 0 < b then NInf else PInf)"
| "fmul PInf PInf = PInf"
| "fmul NInf NInf = PInf"
| "fmul PInf NInf = NInf"
| "fmul NInf PInf = NInf"

fun fdiv :: "flt \<Rightarrow> flt \<Rightarrow> flt" where
  "fdiv NaN b = NaN"
| "fdiv a NaN = NaN"
| "fdiv (Fin a) (Fin b) =
     (if b = 0 then (if a = 0 then NaN else if 0 < a then PInf else NInf)
      else Fin (a / b))"
| "fdiv (Fin a) PInf = Fin 0"
| "fdiv (Fin a) NInf = Fin 0"
| "fdiv PInf (Fin b) = (if 0 \<le> b then PInf else NInf)"
| "fdiv NInf (Fin b) = (if 0 \<le> b then NInf else PInf)"
| "fdiv PInf PInf = NaN"
| "fdiv PInf NInf = NaN"
| "fdiv NInf PInf = NaN"
| "fdiv NInf NInf = NaN"

fun fless :: "flt \<Rightarrow> flt \<Rightarrow> bool" where
  "fless (Fin a) (Fin b) = (a < b)"
| "fless (Fin a) PInf = True"
| "fless NInf (Fin b) = True"
| "fless NInf PInf = True"
| "fless a b = False"

fun fless_eq :: "flt \<Rightarrow> flt \<Rightarrow> bool" where
  "fless_eq (Fin a) (Fin b) = (a \<le> b)"
| "fless_eq (Fin a) PInf = True"
| "fless_eq NInf (Fin b) = True"
| "fless_eq NInf PInf = True"
| "fless_eq PInf PInf = True"
| "fless_eq NInf NInf = True"
| "fless_eq a b = False"

text \<open>\<^verbatim>\<open>std::sqrt\<close>, \<^verbatim>\<open>std::isinf\<close>, \<^verbatim>\<open>std::round\<close> (halves away from zero) and the
  conversion of an \<^verbatim>\<open>int\<close> operand to \<^verbatim>\<open>float\<close>.\<close>

fun fsqrt :: "flt \<Rightarrow> flt" where
  "fsqrt (Fin a) = (if a < 0 then NaN else Fin (sqrt a))"
| "fsqrt PInf = PInf"
| "fsqrt NInf = NaN"
| "fsqrt NaN = NaN"

fun isinf :: "flt \<Rightarrow> bool" where
  "isinf PInf = True"
| "isinf NInf = True"
| "isinf a = False"

fun fround :: "flt \<Rightarrow> flt" where
  "fround (Fin a) =
     Fin (of_int (if 0 \<le> a then \<lfloor>a + 1 / 2\<rfloor> else \<lceil>a - 1 / 2\<rceil>))"
| "fround a = a"

definition flt_of_int :: "int \<Rightarrow> flt" where
  "flt_of_int n = Fin (of_int n)"

instantiation flt :: "{zero, one, plus, minus, uminus, times, inverse, ord}"
begin

definition zero_flt :: flt where "zero_flt = Fin 0"
definition one_flt :: flt where "one_flt = Fin 1"
definition plus_flt :: "flt \<Rightarrow> flt \<Rightarrow> flt" where "plus_flt a b = fadd a b"
definition uminus_flt :: "flt \<Rightarrow> flt" where "uminus_flt a = fneg a"
definition minus_flt :: "flt \<Rightarrow> flt \<Rightarrow> flt" where "minus_flt a b = fadd a (fneg b)"
definition times_flt :: "flt \<Rightarrow> flt \<Rightarrow> flt" where "times_flt a b = fmul a b"
definition divide_flt :: "flt \<Rightarrow> flt \<Rightarrow> flt" where "divide_flt a b = fdiv a b"
definition inverse_flt :: "flt \<Rightarrow> flt" where "inverse_flt a = fdiv (Fin 1) a"
definition less_flt :: "flt \<Rightarrow> flt \<Rightarrow> bool" where "less_flt a b = fless a b"
definition less_eq_flt :: "flt \<Rightarrow> flt \<Rightarrow> bool" where "less_eq_flt a b = fless_eq a b"

instance ..

end

section \<open>Constants (lines 38 to 44)\<close>

definition kNumIrisLandmarksPerEye :: nat where
  "kNumIrisLandmarksPerEye = 5"

definition kIrisSizeInMM :: flt where
  "kIrisSizeInMM = Fin (118 / 10)"

definition kDeltaAdjustInMM :: flt where
  "kDeltaAdjustInMM = Fin 4"

definition kDeltaStrabismusThresholdInMM :: flt where
  "kDeltaStrabismusThresholdInMM = Fin 6"

definition kDepthWeightUpdate :: flt where
  "kDepthWeightUpdate = Fin (1 / 10)"

section \<open>Landmarks and the geometry helpers (lines 52 to 80)\<close>

text \<open>A \<^verbatim>\<open>NormalizedLandmark\<close> with the two coordinates the calculator reads.\<close>

datatype landmark = NormalizedLandmark (lm_x: flt) (lm_y: flt)

text \<open>
  The only status other than OK that the calculator returns is that of a failed
  \<^verbatim>\<open>RET_CHECK\<close>.
\<close>

datatype error = RetCheckFailure string

text \<open>
  The accessor \<^verbatim>\<open>NormalizedLandmarkList::landmark(i)\<close> of the generated class.  For an index
  below \<^verbatim>\<open>landmark_size()\<close> it is the landmark at that index.  For any other index the C++
  call has no defined result: the accessor asserts the range in a debug build, reads past
  the array otherwise, and in no case returns a status.  The landmark it yields then is
  left unspecified here.
\<close>

definition landmark :: "landmark list \<Rightarrow> nat \<Rightarrow> landmark" where
  "landmark lds i = (if i < length lds then lds ! i else undefined)"

definition GetDepth :: "flt \<Rightarrow> flt \<Rightarrow> flt \<Rightarrow> flt \<Rightarrow> flt" where
  "GetDepth x0 y0 x1 y1 = fsqrt ((x0 - x1) * (x0 - x1) + (y0 - y1) * (y0 - y1))"

definition GetLandmarkDepth :: "landmark \<Rightarrow> landmark \<Rightarrow> int \<times> int \<Rightarrow> flt" where
  "GetLandmarkDepth ld0 ld1 image_size =
     GetDepth (lm_x ld0 * flt_of_int (fst image_size)) (lm_y ld0 * flt_of_int (snd image_size))
              (lm_x ld1 * flt_of_int (fst image_size)) (lm_y ld1 * flt_of_int (snd image_size))"

definition CalculateIrisDiameter :: "landmark list \<Rightarrow> int \<times> int \<Rightarrow> flt" where
  "CalculateIrisDiameter landmarks image_size =
     (let dist_vert = GetLandmarkDepth (landmark landmarks 1) (landmark landmarks 2) image_size;
          dist_hori = GetLandmarkDepth (landmark landmarks 3) (landmark landmarks 4) image_size
      in (dist_hori + dist_vert) / Fin 2)"

definition CalculateDepth :: "landmark \<Rightarrow> flt \<Rightarrow> flt \<Rightarrow> flt \<Rightarrow> flt \<Rightarrow> flt" where
  "CalculateDepth center focal_length iris_size img_w img_h =
     (let origin = (img_w / Fin 2, img_h / Fin 2);
          y = GetDepth (fst origin) (snd origin) (lm_x center * img_w) (lm_y center * img_h);
          x = fsqrt (focal_length * focal_length + y * y);
          depth = kIrisSizeInMM * x / iris_size
      in depth)"

section \<open>Partition of the iris landmarks (lines 672 to 690)\<close>

text \<open>Each \<^verbatim>\<open>*iris->add_landmark() = lds.landmark(i)\<close> appends one landmark to the output
  list, which is empty when the calculator calls the function.\<close>

definition GetLeftIris :: "landmark list \<Rightarrow> landmark list" where
  "GetLeftIris lds =
     [] @ [landmark lds 0] @ [landmark lds 2] @ [landmark lds 4] @ [landmark lds 3] @
     [landmark lds 1]"

definition GetRightIris :: "landmark list \<Rightarrow> landmark list" where
  "GetRightIris lds =
     [] @ [landmark lds 5] @ [landmark lds 7] @ [landmark lds 9] @ [landmark lds 6] @
     [landmark lds 8]"

section \<open>The members of the calculator (lines 136 to 195)\<close>

text \<open>The 18 \<^verbatim>\<open>last_\<close> members hold the baseline, the 9 \<^verbatim>\<open>warn_\<close> members the warning
  counters (C++ \<^verbatim>\<open>int\<close>: words of 32 bits, read as signed numbers by \<open>sint\<close>, whose addition
  wraps around from \<open>2\<^sup>3\<^sup>1 - 1\<close> to \<open>- 2\<^sup>3\<^sup>1\<close> as the machine addition does; the C++ standard
  leaves that overflow undefined), and \<^verbatim>\<open>plu_iris_size\<close> with the 18
  \<^verbatim>\<open>plu_dt_\<close> members the smoothed values.\<close>

record calc_state =
  last_plu_dt_a_r_x :: flt
  last_plu_dt_a_r_y :: flt
  last_plu_dt_a_r :: flt
  last_plu_dt_a_l_x :: flt
  last_plu_dt_a_l_y :: flt
  last_plu_dt_a_l :: flt
  last_plu_dt_t_r_x :: flt
  last_plu_dt_t_r_y :: flt
  last_plu_dt_t_r :: flt
  last_plu_dt_t_l_x :: flt
  last_plu_dt_t_l_y :: flt
  last_plu_dt_t_l :: flt
  last_plu_dt_n_r_x :: flt
  last_plu_dt_n_r_y :: flt
  last_plu_dt_n_r :: flt
  last_plu_dt_n_l_x :: flt
  last_plu_dt_n_l_y :: flt
  last_plu_dt_n_l :: flt
  warn_delta_plu_r_x_count :: "32 word"
  warn_delta_plu_l_x_count :: "32 word"
  warn_delta_plu_r_y_count :: "32 word"
  warn_delta_plu_l_y_count :: "32 word"
  warn_delta_plu_r_count :: "32 word"
  warn_delta_plu_l_count :: "32 word"
  warn_delta_plu_x_count :: "32 word"
  warn_delta_plu_y_count :: "32 word"
  warn_delta_plu_count :: "32 word"
  plu_iris_size :: flt
  plu_dt_a_r_x :: flt
  plu_dt_a_r_y :: flt
  plu_dt_a_r :: flt
  plu_dt_a_l_x :: flt
  plu_dt_a_l_y :: flt
  plu_dt_a_l :: flt
  plu_dt_t_r_x :: flt
  plu_dt_t_r_y :: flt
  plu_dt_t_r :: flt
  plu_dt_t_l_x :: flt
  plu_dt_t_l_y :: flt
  plu_dt_t_l :: flt
  plu_dt_n_r_x :: flt
  plu_dt_n_r_y :: flt
  plu_dt_n_r :: flt
  plu_dt_n_l_x :: flt
  plu_dt_n_l_y :: flt
  plu_dt_n_l :: flt

definition initial_state :: calc_state where
  "initial_state = \<lparr>
     last_plu_dt_a_r_x = Fin (- 1),
     last_plu_dt_a_r_y = Fin (- 1),
     last_plu_dt_a_r = Fin (- 1),
     last_plu_dt_a_l_x = Fin (- 1),
     last_plu_dt_a_l_y = Fin (- 1),
     last_plu_dt_a_l = Fin (- 1),
     last_plu_dt_t_r_x = Fin (- 1),
     last_plu_dt_t_r_y = Fin (- 1),
     last_plu_dt_t_r = Fin (- 1),
     last_plu_dt_t_l_x = Fin (- 1),
     last_plu_dt_t_l_y = Fin (- 1),
     last_plu_dt_t_l = Fin (- 1),
     last_plu_dt_n_r_x = Fin (- 1),
     last_plu_dt_n_r_y = Fin (- 1),
     last_plu_dt_n_r = Fin (- 1),
     last_plu_dt_n_l_x = Fin (- 1),
     last_plu_dt_n_l_y = Fin (- 1),
     last_plu_dt_n_l = Fin (- 1),
     warn_delta_plu_r_x_count = 0,
     warn_delta_plu_l_x_count = 0,
     warn_delta_plu_r_y_count = 0,
     warn_delta_plu_l_y_count = 0,
     warn_delta_plu_r_count = 0,
     warn_delta_plu_l_count = 0,
     warn_delta_plu_x_count = 0,
     warn_delta_plu_y_count = 0,
     warn_delta_plu_count = 0,
     plu_iris_size = Fin (- 1),
     plu_dt_a_r_x = Fin (- 1),
     plu_dt_a_r_y = Fin (- 1),
     plu_dt_a_r = Fin (- 1),
     plu_dt_a_l_x = Fin (- 1),
     plu_dt_a_l_y = Fin (- 1),
     plu_dt_a_l = Fin (- 1),
     plu_dt_t_r_x = Fin (- 1),
     plu_dt_t_r_y = Fin (- 1),
     plu_dt_t_r = Fin (- 1),
     plu_dt_t_l_x = Fin (- 1),
     plu_dt_t_l_y = Fin (- 1),
     plu_dt_t_l = Fin (- 1),
     plu_dt_n_r_x = Fin (- 1),
     plu_dt_n_r_y = Fin (- 1),
     plu_dt_n_r = Fin (- 1),
     plu_dt_n_l_x = Fin (- 1),
     plu_dt_n_l_y = Fin (- 1),
     plu_dt_n_l = Fin (- 1) \<rparr>"

section \<open>The detector block of \<^verbatim>\<open>Process\<close> (lines 313 to 599)\<close>

text \<open>Lines 314 to 317: the larger of the two iris diameters, as the comparison computes it.\<close>

definition raw_plu_iris_size :: "flt \<Rightarrow> flt \<Rightarrow> flt" where
  "raw_plu_iris_size left_iris_size right_iris_size =
     (if left_iris_size < right_iris_size then right_iris_size else left_iris_size)"

text \<open>The conditional expression that lines 319 to 323 apply to \<^verbatim>\<open>plu_iris_size\<close> and lines
  358 to 464 to each of the 18 \<^verbatim>\<open>plu_dt_\<close> members: \<open>stored\<close> is the member, \<open>raw\<close> the
  value of the frame.\<close>

definition smooth :: "flt \<Rightarrow> flt \<Rightarrow> flt" where
  "smooth stored raw =
     (if stored < Fin 0 \<or> isinf stored then raw
      else stored * (Fin 1 - kDepthWeightUpdate) + raw * kDepthWeightUpdate)"

text \<open>Line 325: the scale from pixels to millimetres, from the updated \<^verbatim>\<open>plu_iris_size\<close>.\<close>

definition plu_adjust_iris_size_ratio :: "calc_state \<Rightarrow> flt" where
  "plu_adjust_iris_size_ratio st = kIrisSizeInMM / plu_iris_size st"

text \<open>The four face corners read at lines 286 to 289 and the two iris centres of lines 280
  and 281.\<close>

record eye_points =
  plu_t_r :: landmark
  plu_n_r :: landmark
  plu_n_l :: landmark
  plu_t_l :: landmark
  plu_c_r :: landmark
  plu_c_l :: landmark

text \<open>Lines 330 to 355: the 18 distances of the frame.\<close>

record raw_dt =
  raw_plu_dt_a_r_x :: flt
  raw_plu_dt_a_r_y :: flt
  raw_plu_dt_a_r :: flt
  raw_plu_dt_a_l_x :: flt
  raw_plu_dt_a_l_y :: flt
  raw_plu_dt_a_l :: flt
  raw_plu_dt_t_r_x :: flt
  raw_plu_dt_t_r_y :: flt
  raw_plu_dt_t_r :: flt
  raw_plu_dt_t_l_x :: flt
  raw_plu_dt_t_l_y :: flt
  raw_plu_dt_t_l :: flt
  raw_plu_dt_n_r_x :: flt
  raw_plu_dt_n_r_y :: flt
  raw_plu_dt_n_r :: flt
  raw_plu_dt_n_l_x :: flt
  raw_plu_dt_n_l_y :: flt
  raw_plu_dt_n_l :: flt

definition raw_distances :: "eye_points \<Rightarrow> int \<times> int \<Rightarrow> flt \<Rightarrow> raw_dt" where
  "raw_distances p image_size ratio =
     (let image_size_x = flt_of_int (fst image_size) * ratio;
          image_size_y = flt_of_int (snd image_size) * ratio;
          r_a_r_x = fsqrt ((lm_x (plu_t_r p) - lm_x (plu_n_r p)) * (lm_x (plu_t_r p) - lm_x (plu_n_r p))) * image_size_x;
          r_a_r_y = fsqrt ((lm_y (plu_t_r p) - lm_y (plu_n_r p)) * (lm_y (plu_t_r p) - lm_y (plu_n_r p))) * image_size_y;
          r_a_r = fsqrt (r_a_r_x * r_a_r_x + r_a_r_y * r_a_r_y);
          r_a_l_x = fsqrt ((lm_x (plu_t_l p) - lm_x (plu_n_l p)) * (lm_x (plu_t_l p) - lm_x (plu_n_l p))) * image_size_x;
          r_a_l_y = fsqrt ((lm_y (plu_t_l p) - lm_y (plu_n_l p)) * (lm_y (plu_t_l p) - lm_y (plu_n_l p))) * image_size_y;
          r_a_l = fsqrt (r_a_l_x * r_a_l_x + r_a_l_y * r_a_l_y);
          r_t_r_x = fsqrt ((lm_x (plu_t_r p) - lm_x (plu_c_r p)) * (lm_x (plu_t_r p) - lm_x (plu_c_r p))) * image_size_x;
          r_t_r_y = fsqrt ((lm_y (plu_t_r p) - lm_y (plu_c_r p)) * (lm_y (plu_t_r p) - lm_y (plu_c_r p))) * image_size_y;
          r_t_r = fsqrt (r_t_r_x * r_t_r_x + r_t_r_y * r_t_r_y);
          r_t_l_x = fsqrt ((lm_x (plu_t_l p) - lm_x (plu_c_l p)) * (lm_x (plu_t_l p) - lm_x (plu_c_l p))) * image_size_x;
          r_t_l_y = fsqrt ((lm_y (plu_t_l p) - lm_y (plu_c_l p)) * (lm_y (plu_t_l p) - lm_y (plu_c_l p))) * image_size_y;
          r_t_l = fsqrt (r_t_l_x * r_t_l_x + r_t_l_y * r_t_l_y);
          r_n_r_x = fsqrt ((lm_x (plu_n_r p) - lm_x (plu_c_r p)) * (lm_x (plu_n_r p) - lm_x (plu_c_r p))) * image_size_x;
          r_n_r_y = fsqrt ((lm_y (plu_n_r p) - lm_y (plu_c_r p)) * (lm_y (plu_n_r p) - lm_y (plu_c_r p))) * image_size_y;
          r_n_r = fsqrt (r_n_r_x * r_n_r_x + r_n_r_y * r_n_r_y);
          r_n_l_x = fsqrt ((lm_x (plu_n_l p) - lm_x (plu_c_l p)) * (lm_x (plu_n_l p) - lm_x (plu_c_l p))) * image_size_x;
          r_n_l_y = fsqrt ((lm_y (plu_n_l p) - lm_y (plu_c_l p)) * (lm_y (plu_n_l p) - lm_y (plu_c_l p))) * image_size_y;
          r_n_l = fsqrt (r_n_l_x * r_n_l_x + r_n_l_y * r_n_l_y)
      in \<lparr> raw_plu_dt_a_r_x = r_a_r_x,
           raw_plu_dt_a_r_y = r_a_r_y,
           raw_plu_dt_a_r = r_a_r,
           raw_plu_dt_a_l_x = r_a_l_x,
           raw_plu_dt_a_l_y = r_a_l_y,
           raw_plu_dt_a_l = r_a_l,
           raw_plu_dt_t_r_x = r_t_r_x,
           raw_plu_dt_t_r_y = r_t_r_y,
           raw_plu_dt_t_r = r_t_r,
           raw_plu_dt_t_l_x = r_t_l_x,
           raw_plu_dt_t_l_y = r_t_l_y,
           raw_plu_dt_t_l = r_t_l,
           raw_plu_dt_n_r_x = r_n_r_x,
           raw_plu_dt_n_r_y = r_n_r_y,
           raw_plu_dt_n_r = r_n_r,
           raw_plu_dt_n_l_x = r_n_l_x,
           raw_plu_dt_n_l_y = r_n_l_y,
           raw_plu_dt_n_l = r_n_l \<rparr>)"

text \<open>Lines 358 to 464: every \<^verbatim>\<open>plu_dt_\<close> member is assigned, with no test of the raw value.\<close>

definition update_filters :: "calc_state \<Rightarrow> raw_dt \<Rightarrow> calc_state" where
  "update_filters st r = st \<lparr>
     plu_dt_a_r_x := smooth (plu_dt_a_r_x st) (raw_plu_dt_a_r_x r),
     plu_dt_a_r_y := smooth (plu_dt_a_r_y st) (raw_plu_dt_a_r_y r),
     plu_dt_a_r := smooth (plu_dt_a_r st) (raw_plu_dt_a_r r),
     plu_dt_a_l_x := smooth (plu_dt_a_l_x st) (raw_plu_dt_a_l_x r),
     plu_dt_a_l_y := smooth (plu_dt_a_l_y st) (raw_plu_dt_a_l_y r),
     plu_dt_a_l := smooth (plu_dt_a_l st) (raw_plu_dt_a_l r),
     plu_dt_t_r_x := smooth (plu_dt_t_r_x st) (raw_plu_dt_t_r_x r),
     plu_dt_t_r_y := smooth (plu_dt_t_r_y st) (raw_plu_dt_t_r_y r),
     plu_dt_t_r := smooth (plu_dt_t_r st) (raw_plu_dt_t_r r),
     plu_dt_t_l_x := smooth (plu_dt_t_l_x st) (raw_plu_dt_t_l_x r),
     plu_dt_t_l_y := smooth (plu_dt_t_l_y st) (raw_plu_dt_t_l_y r),
     plu_dt_t_l := smooth (plu_dt_t_l st) (raw_plu_dt_t_l r),
     plu_dt_n_r_x := smooth (plu_dt_n_r_x st) (raw_plu_dt_n_r_x r),
     plu_dt_n_r_y := smooth (plu_dt_n_r_y st) (raw_plu_dt_n_r_y r),
     plu_dt_n_r := smooth (plu_dt_n_r st) (raw_plu_dt_n_r r),
     plu_dt_n_l_x := smooth (plu_dt_n_l_x st) (raw_plu_dt_n_l_x r),
     plu_dt_n_l_y := smooth (plu_dt_n_l_y st) (raw_plu_dt_n_l_y r),
     plu_dt_n_l := smooth (plu_dt_n_l st) (raw_plu_dt_n_l r) \<rparr>"

text \<open>Lines 467 to 487: the nine deltas of the frame, local to the block.\<close>

record deltas =
  delta_plu_r_x :: flt
  delta_plu_l_x :: flt
  delta_plu_r_y :: flt
  delta_plu_l_y :: flt
  delta_plu_r :: flt
  delta_plu_l :: flt
  delta_plu_x :: flt
  delta_plu_y :: flt
  delta_plu :: flt

definition calc_deltas :: "calc_state \<Rightarrow> deltas" where
  "calc_deltas st =
     (if Fin 0 < last_plu_dt_a_r st \<and> Fin 0 < plu_dt_a_r st then
        (let d_r_x = ((plu_dt_n_r_x st - last_plu_dt_n_r_x st) - (plu_dt_t_r_x st - last_plu_dt_t_r_x st)) * kDeltaAdjustInMM / Fin 2;
             d_l_x = ((plu_dt_n_l_x st - last_plu_dt_n_l_x st) - (plu_dt_t_l_x st - last_plu_dt_t_l_x st)) * kDeltaAdjustInMM / Fin 2;
             d_r_y = ((plu_dt_n_r_y st - last_plu_dt_n_r_y st) - (plu_dt_t_r_y st - last_plu_dt_t_r_y st)) * kDeltaAdjustInMM / Fin 2;
             d_l_y = ((plu_dt_n_l_y st - last_plu_dt_n_l_y st) - (plu_dt_t_l_y st - last_plu_dt_t_l_y st)) * kDeltaAdjustInMM / Fin 2;
             d_r = ((plu_dt_n_r st - last_plu_dt_n_r st) - (plu_dt_t_r st - last_plu_dt_t_r st)) * kDeltaAdjustInMM / Fin 2;
             d_l = ((plu_dt_n_l st - last_plu_dt_n_l st) - (plu_dt_t_l st - last_plu_dt_t_l st)) * kDeltaAdjustInMM / Fin 2
         in \<lparr> delta_plu_r_x = d_r_x, delta_plu_l_x = d_l_x,
              delta_plu_r_y = d_r_y, delta_plu_l_y = d_l_y,
              delta_plu_r = d_r, delta_plu_l = d_l,
              delta_plu_x = d_l_x - d_r_x,
              delta_plu_y = d_l_y - d_r_y,
              delta_plu = d_l - d_r \<rparr>)
      else
        \<lparr> delta_plu_r_x = Fin (- 100), delta_plu_l_x = Fin (- 100),
          delta_plu_r_y = Fin (- 100), delta_plu_l_y = Fin (- 100),
          delta_plu_r = Fin (- 100), delta_plu_l = Fin (- 100),
          delta_plu_x = Fin (- 100), delta_plu_y = Fin (- 100),
          delta_plu = Fin (- 100) \<rparr>)"

text \<open>Lines 489 to 515: one test and one \<^verbatim>\<open>+= 1\<close> for each counter, with no test of the range
  of the counter.\<close>

definition warn_incr :: "flt \<Rightarrow> 32 word \<Rightarrow> 32 word" where
  "warn_incr delta count = (if kDeltaStrabismusThresholdInMM < delta then count + 1 else count)"

definition update_counts :: "calc_state \<Rightarrow> deltas \<Rightarrow> calc_state" where
  "update_counts st d = st \<lparr>
     warn_delta_plu_r_x_count := warn_incr (delta_plu_r_x d) (warn_delta_plu_r_x_count st),
     warn_delta_plu_l_x_count := warn_incr (delta_plu_l_x d) (warn_delta_plu_l_x_count st),
     warn_delta_plu_r_y_count := warn_incr (delta_plu_r_y d) (warn_delta_plu_r_y_count st),
     warn_delta_plu_l_y_count := warn_incr (delta_plu_l_y d) (warn_delta_plu_l_y_count st),
     warn_delta_plu_r_count := warn_incr (delta_plu_r d) (warn_delta_plu_r_count st),
     warn_delta_plu_l_count := warn_incr (delta_plu_l d) (warn_delta_plu_l_count st),
     warn_delta_plu_x_count := warn_incr (delta_plu_x d) (warn_delta_plu_x_count st),
     warn_delta_plu_y_count := warn_incr (delta_plu_y d) (warn_delta_plu_y_count st),
     warn_delta_plu_count := warn_incr (delta_plu d) (warn_delta_plu_count st) \<rparr>"

text \<open>Lines 518 to 544: the baseline is assigned from the smoothed values.\<close>

definition update_last :: "calc_state \<Rightarrow> calc_state" where
  "update_last st =
     (if last_plu_dt_a_r st < Fin 0 \<or> isinf (last_plu_dt_a_r st) then
        (if Fin 0 < plu_dt_a_r st then st \<lparr>
           last_plu_dt_a_r_x := plu_dt_a_r_x st,
           last_plu_dt_a_r_y := plu_dt_a_r_y st,
           last_plu_dt_a_r := plu_dt_a_r st,
           last_plu_dt_a_l_x := plu_dt_a_l_x st,
           last_plu_dt_a_l_y := plu_dt_a_l_y st,
           last_plu_dt_a_l := plu_dt_a_l st,
           last_plu_dt_t_r_x := plu_dt_t_r_x st,
           last_plu_dt_t_r_y := plu_dt_t_r_y st,
           last_plu_dt_t_r := plu_dt_t_r st,
           last_plu_dt_t_l_x := plu_dt_t_l_x st,
           last_plu_dt_t_l_y := plu_dt_t_l_y st,
           last_plu_dt_t_l := plu_dt_t_l st,
           last_plu_dt_n_r_x := plu_dt_n_r_x st,
           last_plu_dt_n_r_y := plu_dt_n_r_y st,
           last_plu_dt_n_r := plu_dt_n_r st,
           last_plu_dt_n_l_x := plu_dt_n_l_x st,
           last_plu_dt_n_l_y := plu_dt_n_l_y st,
           last_plu_dt_n_l := plu_dt_n_l st \<rparr>
         else st)
      else st)"

section \<open>Text lines and render data\<close>

text \<open>
  A text line is kept as the sequence of pieces that \<^verbatim>\<open>absl::StrAppend\<close> joins: a literal, a
  number appended as such, or an \<^verbatim>\<open>absl::StrFormat\<close> call with its format and arguments.
  The characters a number prints as are not modelled.  Of a render annotation the shape
  and its coordinates are kept; colour, thickness, font and the position of a text label
  come from the options of the node and are left out.
\<close>

datatype num = F flt | I int

datatype piece = Str string | Num flt | Fmt string "num list"

type_synonym line = "piece list"

datatype annotation =
    Oval flt flt flt flt
  | Point flt flt
  | Text line

text \<open>Lines 546 to 598: the 16 lines of the detector, from the state after all updates of the
  frame and the deltas of the frame.\<close>

definition detector_lines :: "calc_state \<Rightarrow> deltas \<Rightarrow> flt \<Rightarrow> flt \<Rightarrow> line list" where
  "detector_lines st d left_iris_size right_iris_size =
    [ [Str ''left iris size : '', Fmt ''% 5.1f'' [F (left_iris_size * plu_adjust_iris_size_ratio st)], Str '' mm''],
      [Str ''left ab : '', Fmt ''d% 5.1f, x% 5.1f, y% 5.1f'' [F (plu_dt_a_l st), F (plu_dt_a_l_x st), F (plu_dt_a_l_y st)], Str '' mm''],
      [Str ''left tb : '', Fmt ''d% 5.1f, x% 5.1f, y% 5.1f'' [F (plu_dt_t_l st), F (plu_dt_t_l_x st), F (plu_dt_t_l_y st)], Str '' mm''],
      [Str ''left nb : '', Fmt ''d% 5.1f, x% 5.1f, y% 5.1f'' [F (plu_dt_n_l st), F (plu_dt_n_l_x st), F (plu_dt_n_l_y st)], Str '' mm''],
      [Str ''left delta : '', Fmt ''d% 5.1f, x% 5.1f, y% 5.1f'' [F (delta_plu_l d), F (delta_plu_l_x d), F (delta_plu_l_y d)], Str '' mm''],
      [Str ''left count : '', Fmt ''d% 5.1f, x% 5.1f, y% 5.1f'' [I (sint (warn_delta_plu_l_count st)), I (sint (warn_delta_plu_l_x_count st)), I (sint (warn_delta_plu_l_y_count st))]],
      [Str ''right iris size : '', Fmt ''% 5.1f'' [F (right_iris_size * plu_adjust_iris_size_ratio st)], Str '' mm''],
      [Str ''right ab : '', Fmt ''d% 5.1f, x% 5.1f, y% 5.1f'' [F (plu_dt_a_r st), F (plu_dt_a_r_x st), F (plu_dt_a_r_y st)], Str '' mm''],
      [Str ''right tb : '', Fmt ''d% 5.1f, x% 5.1f, y% 5.1f'' [F (plu_dt_t_r st), F (plu_dt_t_r_x st), F (plu_dt_t_r_y st)], Str '' mm''],
      [Str ''right nb : '', Fmt ''d% 5.1f, x% 5.1f, y% 5.1f'' [F (plu_dt_n_r st), F (plu_dt_n_r_x st), F (plu_dt_n_r_y st)], Str '' mm''],
      [Str ''right delta : '', Fmt ''d% 5.1f, x% 5.1f, y% 5.1f'' [F (delta_plu_r d), F (delta_plu_r_x d), F (delta_plu_r_y d)], Str '' mm''],
      [Str ''right count : '', Fmt ''d% 5.1f, x% 5.1f, y% 5.1f'' [I (sint (warn_delta_plu_r_count st)), I (sint (warn_delta_plu_r_x_count st)), I (sint (warn_delta_plu_r_y_count st))]],
      [Str ''iris  : '', Fmt ''% 5.1f'' [F (plu_iris_size st * plu_adjust_iris_size_ratio st)], Str '' mm''],
      [Str ''delta : '', Fmt ''d% 5.1f, x% 5.1f, y% 5.1f'' [F (delta_plu d), F (delta_plu_x d), F (delta_plu_y d)], Str '' mm''],
      [Str ''count : '', Fmt ''d% 5.1f, x% 5.1f, y% 5.1f'' [I (sint (warn_delta_plu_count st)), I (sint (warn_delta_plu_x_count st)), I (sint (warn_delta_plu_y_count st))]],
      [Str ''const : '', Fmt ''iris % 5.1f, calc % 5.1f, delta % 5.1f'' [F kIrisSizeInMM, F kDeltaAdjustInMM, F kDeltaStrabismusThresholdInMM], Str '' mm''] ]"

text \<open>Lines 319 to 464: \<^verbatim>\<open>plu_iris_size\<close> is assigned first, the scale is taken from its new
  value, then the 18 distances are computed and smoothed.\<close>

definition filtered ::
  "calc_state \<Rightarrow> eye_points \<Rightarrow> int \<times> int \<Rightarrow> flt \<Rightarrow> flt \<Rightarrow> calc_state" where
  "filtered st p image_size left_iris_size right_iris_size =
     (let st1 = st \<lparr> plu_iris_size :=
                  smooth (plu_iris_size st) (raw_plu_iris_size left_iris_size right_iris_size) \<rparr>;
          r = raw_distances p image_size (plu_adjust_iris_size_ratio st1)
      in update_filters st1 r)"

text \<open>The block guarded by \<^verbatim>\<open>raw_plu_iris_size > 0\<close> at line 318.  It returns the members
  after the frame and the lines it appends.\<close>

definition detector ::
  "calc_state \<Rightarrow> eye_points \<Rightarrow> int \<times> int \<Rightarrow> flt \<Rightarrow> flt \<Rightarrow> calc_state \<times> line list" where
  "detector st p image_size left_iris_size right_iris_size =
     (let st2 = filtered st p image_size left_iris_size right_iris_size;
          d = calc_deltas st2;
          st3 = update_counts st2 d;
          st4 = update_last st3
      in (st4, detector_lines st4 d left_iris_size right_iris_size))"

section \<open>\<^verbatim>\<open>RenderIris\<close> and \<^verbatim>\<open>AddTextRenderData\<close> (lines 611 to 670)\<close>

definition RenderIris ::
  "landmark list \<Rightarrow> int \<times> int \<Rightarrow> flt \<Rightarrow> annotation list \<Rightarrow> annotation list" where
  "RenderIris iris_landmarks image_size iris_size render_data =
     (let iris_radius = iris_size / Fin 2;
          iris_center = landmark iris_landmarks 0
      in render_data @
          [Oval (lm_y iris_center - iris_radius / flt_of_int (snd image_size))
                (lm_y iris_center + iris_radius / flt_of_int (snd image_size))
                (lm_x iris_center - iris_radius / flt_of_int (fst image_size))
                (lm_x iris_center + iris_radius / flt_of_int (fst image_size))] @
          map (\<lambda>l. Point (lm_x l) (lm_y l)) iris_landmarks)"

definition AddTextRenderData :: "line list \<Rightarrow> annotation list \<Rightarrow> annotation list" where
  "AddTextRenderData lines render_data = render_data @ map Text lines"

section \<open>\<^verbatim>\<open>Process\<close> (lines 226 to 609)\<close>

text \<open>
  The packets of one frame.  \<open>None\<close> is an empty input stream at the timestamp; for the two
  depth streams it also stands for a stream the graph does not connect.
\<close>

record frame =
  iris_packet :: "landmark list option"
  image_size_packet :: "(int \<times> int) option"
  face_landmarks_packet :: "landmark list option"
  left_iris_depth_packet :: "flt option"
  right_iris_depth_packet :: "flt option"

text \<open>Lines 258 to 277: the lines of the two depth inputs.\<close>

definition depth_lines :: "frame \<Rightarrow> line list" where
  "depth_lines f =
     (case left_iris_depth_packet f of
        None \<Rightarrow> []
      | Some left_iris_depth \<Rightarrow>
          if \<not> isinf left_iris_depth
          then [[Str ''Left : '', Str '':'', Num (fround (left_iris_depth / Fin 10)), Str '' cm'']]
          else []) @
     (case right_iris_depth_packet f of
        None \<Rightarrow> []
      | Some right_iris_depth \<Rightarrow>
          if \<not> isinf right_iris_depth
          then [[Str ''Right : '', Str '':'', Num (fround (right_iris_depth / Fin 10)), Str '' cm'']]
          else [])"

text \<open>
  The result of a call: the members after it, and either the status of a failed check or
  the packet sent on \<^verbatim>\<open>RENDER_DATA\<close> (\<open>None\<close> when the call sends nothing).
\<close>

type_synonym outcome = "calc_state \<times> (error + annotation list option)"

text \<open>\<^verbatim>\<open>Open\<close> (lines 221 to 224) sets the timestamp offset and touches no member.\<close>

definition Open :: "calc_state \<Rightarrow> calc_state \<times> (error + unit)" where
  "Open st = (st, Inr ())"

text \<open>
  \<^verbatim>\<open>Process\<close>, in the order of the source: the early return on an empty iris stream, the two
  \<^verbatim>\<open>RET_CHECK\<close>s, the two eyes with their diameters and render data, the depth lines, the
  iris centres, and, when the face stream has a packet, the four corners and the detector
  block.  The test of line 279 repeats that of line 228 and holds whenever it is reached.
  The size of the face list is not looked at before the corners are read.
\<close>

definition Process :: "calc_state \<Rightarrow> frame \<Rightarrow> outcome" where
  "Process st f =
     (case iris_packet f of
        None \<Rightarrow> (st, Inr None)
      | Some iris_landmarks \<Rightarrow>
        if length iris_landmarks \<noteq> kNumIrisLandmarksPerEye * 2
        then (st, Inl (RetCheckFailure ''Wrong number of iris landmarks''))
        else
        (case image_size_packet f of
           None \<Rightarrow> (st, Inl (RetCheckFailure ''!cc->Inputs().Tag(kImageSizeTag).IsEmpty()''))
         | Some image_size \<Rightarrow>
           let left_iris = GetLeftIris iris_landmarks;
               right_iris = GetRightIris iris_landmarks;
               left_iris_size = CalculateIrisDiameter left_iris image_size;
               right_iris_size = CalculateIrisDiameter right_iris image_size;
               render_data1 = RenderIris left_iris image_size left_iris_size [];
               render_data2 = RenderIris right_iris image_size right_iris_size render_data1;
               lines = depth_lines f;
               c_r = landmark right_iris 0;
               c_l = landmark left_iris 0
           in
           (case face_landmarks_packet f of
              None \<Rightarrow> (st, Inr (Some (AddTextRenderData lines render_data2)))
            | Some update_face_landmarks \<Rightarrow>
              let t_r = landmark update_face_landmarks 263;
                  n_r = landmark update_face_landmarks 362;
                  n_l = landmark update_face_landmarks 133;
                  t_l = landmark update_face_landmarks 33;
                  render_data3 = render_data2 @
                    [Point (lm_x t_r) (lm_y t_r), Point (lm_x n_r) (lm_y n_r),
                     Point (lm_x n_l) (lm_y n_l), Point (lm_x t_l) (lm_y t_l)]
              in
              if Fin 0 < raw_plu_iris_size left_iris_size right_iris_size
              then
                (let p = \<lparr> plu_t_r = t_r, plu_n_r = n_r, plu_n_l = n_l, plu_t_l = t_l,
                             plu_c_r = c_r, plu_c_l = c_l \<rparr>;
                     (st', plu_lines) = detector st p image_size left_iris_size right_iris_size
                 in (st', Inr (Some (AddTextRenderData (lines @ plu_lines) render_data3))))
              else (st, Inr (Some (AddTextRenderData lines render_data3))))))"

text \<open>A stream of frames, processed in order, each call starting from the members as the
  call before left them, also after a call that failed.\<close>

fun run :: "calc_state \<Rightarrow> frame list \<Rightarrow> calc_state" where
  "run st [] = st"
| "run st (f # fs) = run (fst (Process st f)) fs"

section \<open>Notions used in the statements\<close>

text \<open>The two eyes that \<^verbatim>\<open>GetLeftIris\<close> and \<^verbatim>\<open>GetRightIris\<close> cut out of a list of 10 iris
  landmarks, the diameter \<^verbatim>\<open>CalculateIrisDiameter\<close> gives an eye of 5 landmarks, and the
  annotations \<^verbatim>\<open>RenderIris\<close> draws for it.  Each is related to the function of the
  calculator by a lemma below.\<close>

definition left_eye :: "landmark list \<Rightarrow> landmark list" where
  "left_eye lds = [lds ! 0, lds ! 2, lds ! 4, lds ! 3, lds ! 1]"

definition right_eye :: "landmark list \<Rightarrow> landmark list" where
  "right_eye lds = [lds ! 5, lds ! 7, lds ! 9, lds ! 6, lds ! 8]"

definition diameter :: "landmark list \<Rightarrow> int \<times> int \<Rightarrow> flt" where
  "diameter eye sz =
     (GetLandmarkDepth (eye ! 3) (eye ! 4) sz + GetLandmarkDepth (eye ! 1) (eye ! 2) sz) / Fin 2"

definition eye_annotations :: "landmark list \<Rightarrow> int \<times> int \<Rightarrow> annotation list" where
  "eye_annotations eye sz =
     Oval (lm_y (eye ! 0) - diameter eye sz / Fin 2 / flt_of_int (snd sz))
          (lm_y (eye ! 0) + diameter eye sz / Fin 2 / flt_of_int (snd sz))
          (lm_x (eye ! 0) - diameter eye sz / Fin 2 / flt_of_int (fst sz))
          (lm_x (eye ! 0) + diameter eye sz / Fin 2 / flt_of_int (fst sz))
     # map (\<lambda>l. Point (lm_x l) (lm_y l)) eye"

text \<open>The arguments with which \<^verbatim>\<open>Process\<close> enters the detector block on a frame, \<open>None\<close> when
  it does not enter it (lemma \<open>Process_wellformed\<close>).\<close>

definition detector_input :: "frame \<Rightarrow> (eye_points \<times> (int \<times> int) \<times> flt \<times> flt) option" where
  "detector_input f =
     (case iris_packet f of None \<Rightarrow> None | Some lds \<Rightarrow>
      case image_size_packet f of None \<Rightarrow> None | Some sz \<Rightarrow>
      case face_landmarks_packet f of None \<Rightarrow> None | Some fl \<Rightarrow>
        if length lds = 10 \<and>
           Fin 0 < raw_plu_iris_size (diameter (left_eye lds) sz) (diameter (right_eye lds) sz)
        then Some (\<lparr> plu_t_r = landmark fl 263, plu_n_r = landmark fl 362,
                     plu_n_l = landmark fl 133, plu_t_l = landmark fl 33,
                     plu_c_r = lds ! 5, plu_c_l = lds ! 0 \<rparr>,
                   sz, diameter (left_eye lds) sz, diameter (right_eye lds) sz)
        else None)"

text \<open>The members as lists: the 18 baseline values, the 18 smoothed distances and the 18
  distances of a frame in the same order, and the 9 counters with the 9 deltas in the same
  order.\<close>

definition baseline :: "calc_state \<Rightarrow> flt list" where
  "baseline st =
     [last_plu_dt_a_r_x st, last_plu_dt_a_r_y st, last_plu_dt_a_r st,
      last_plu_dt_a_l_x st, last_plu_dt_a_l_y st, last_plu_dt_a_l st,
      last_plu_dt_t_r_x st, last_plu_dt_t_r_y st, last_plu_dt_t_r st,
      last_plu_dt_t_l_x st, last_plu_dt_t_l_y st, last_plu_dt_t_l st,
      last_plu_dt_n_r_x st, last_plu_dt_n_r_y st, last_plu_dt_n_r st,
      last_plu_dt_n_l_x st, last_plu_dt_n_l_y st, last_plu_dt_n_l st]"

definition channels :: "calc_state \<Rightarrow> flt list" where
  "channels st =
     [plu_dt_a_r_x st, plu_dt_a_r_y st, plu_dt_a_r st,
      plu_dt_a_l_x st, plu_dt_a_l_y st, plu_dt_a_l st,
      plu_dt_t_r_x st, plu_dt_t_r_y st, plu_dt_t_r st,
      plu_dt_t_l_x st, plu_dt_t_l_y st, plu_dt_t_l st,
      plu_dt_n_r_x st, plu_dt_n_r_y st, plu_dt_n_r st,
      plu_dt_n_l_x st, plu_dt_n_l_y st, plu_dt_n_l st]"

definition raw_list :: "raw_dt \<Rightarrow> flt list" where
  "raw_list r =
     [raw_plu_dt_a_r_x r, raw_plu_dt_a_r_y r, raw_plu_dt_a_r r,
      raw_plu_dt_a_l_x r, raw_plu_dt_a_l_y r, raw_plu_dt_a_l r,
      raw_plu_dt_t_r_x r, raw_plu_dt_t_r_y r, raw_plu_dt_t_r r,
      raw_plu_dt_t_l_x r, raw_plu_dt_t_l_y r, raw_plu_dt_t_l r,
      raw_plu_dt_n_r_x r, raw_plu_dt_n_r_y r, raw_plu_dt_n_r r,
      raw_plu_dt_n_l_x r, raw_plu_dt_n_l_y r, raw_plu_dt_n_l r]"

definition counters :: "calc_state \<Rightarrow> 32 word list" where
  "counters st =
     [warn_delta_plu_r_x_count st, warn_delta_plu_l_x_count st, warn_delta_plu_r_y_count st,
      warn_delta_plu_l_y_count st, warn_delta_plu_r_count st, warn_delta_plu_l_count st,
      warn_delta_plu_x_count st, warn_delta_plu_y_count st, warn_delta_plu_count st]"

definition delta_list :: "deltas \<Rightarrow> flt list" where
  "delta_list d =
     [delta_plu_r_x d, delta_plu_l_x d, delta_plu_r_y d,
      delta_plu_l_y d, delta_plu_r d, delta_plu_l d,
      delta_plu_x d, delta_plu_y d, delta_plu d]"

text \<open>Frames whose landmarks all have finite coordinates and whose face list, when there is
  one, has the 363 landmarks that the indices of the four corners need.\<close>

fun is_fin :: "flt \<Rightarrow> bool" where
  "is_fin (Fin a) = True"
| "is_fin a = False"

definition finite_landmark :: "landmark \<Rightarrow> bool" where
  "finite_landmark l = (is_fin (lm_x l) \<and> is_fin (lm_y l))"

definition finite_frame :: "frame \<Rightarrow> bool" where
  "finite_frame f =
     ((case iris_packet f of None \<Rightarrow> True | Some lds \<Rightarrow> list_all finite_landmark lds) \<and>
      (case face_landmarks_packet f of
         None \<Rightarrow> True
       | Some fl \<Rightarrow> 363 \<le> length fl \<and> list_all finite_landmark fl))"

text \<open>What holds of the members after any run of frames with finite landmarks:
  \<^verbatim>\<open>plu_iris_size\<close> is not a NaN, and once \<^verbatim>\<open>last_plu_dt_a_r\<close> is positive, \<^verbatim>\<open>plu_dt_a_r\<close> is a
  positive real.\<close>

fun is_pos_fin :: "flt \<Rightarrow> bool" where
  "is_pos_fin (Fin a) = (0 < a)"
| "is_pos_fin a = False"

definition members_sane :: "calc_state \<Rightarrow> bool" where
  "members_sane st =
     (plu_iris_size st \<noteq> NaN \<and> (Fin 0 < last_plu_dt_a_r st \<longrightarrow> is_pos_fin (plu_dt_a_r st)))"

text \<open>The members while \<open>frameC\<close>, defined below, is sent again and again after
  \<open>frameA\<close>: the scale, the corner-to-corner distance and the baseline stay as \<open>frameA\<close> left
  them, the inner distance of the right eye stays at or above its baseline 59 and the outer
  one between 0 and its baseline 118.\<close>

definition steady :: "calc_state \<Rightarrow> bool" where
  "steady st =
     (plu_iris_size st = Fin 2 \<and> plu_dt_a_r st = Fin 295 \<and> last_plu_dt_a_r st = Fin 295 \<and>
      last_plu_dt_n_r_x st = Fin 59 \<and> last_plu_dt_t_r_x st = Fin 118 \<and>
      (\<exists>a. 59 \<le> a \<and> plu_dt_n_r_x st = Fin a) \<and>
      (\<exists>b. 0 \<le> b \<and> b \<le> 118 \<and> plu_dt_t_r_x st = Fin b))"

section \<open>Concrete inputs\<close>

definition pt :: "real \<Rightarrow> real \<Rightarrow> landmark" where
  "pt a b = NormalizedLandmark (Fin a) (Fin b)"

text \<open>Ten iris landmarks: a left iris around \<open>(0.3, 0.5)\<close> and a right iris around
  \<open>(0.7, 0.5)\<close>, each with chords of \<open>0.02\<close>, which are 2 pixels in an image of 100 by 100.
  \<open>iris10_turned\<close> has the centre of the right iris moved to \<open>(0.9, 0.5)\<close>.\<close>

definition iris10 :: "landmark list" where
  "iris10 =
     [pt (3/10) (1/2), pt (31/100) (1/2), pt (3/10) (49/100), pt (29/100) (1/2), pt (3/10) (51/100),
      pt (7/10) (1/2), pt (69/100) (1/2), pt (7/10) (49/100), pt (71/100) (1/2), pt (7/10) (51/100)]"

definition iris10_turned :: "landmark list" where
  "iris10_turned = iris10 [5 := pt (9/10) (1/2)]"

text \<open>A face list of 468 landmarks with the four eye corners at the indices the calculator
  reads (263, 362, 133, 33) and every other landmark at the origin.\<close>

definition face468 :: "landmark \<Rightarrow> landmark \<Rightarrow> landmark \<Rightarrow> landmark \<Rightarrow> landmark list" where
  "face468 t_r n_r n_l t_l =
     replicate 33 (pt 0 0) @ [t_l] @ replicate 99 (pt 0 0) @ [n_l] @
     replicate 129 (pt 0 0) @ [t_r] @ replicate 98 (pt 0 0) @ [n_r] @ replicate 105 (pt 0 0)"

text \<open>A frame of 100 by 100 pixels with the given iris and face landmarks and no depth
  input.\<close>

definition frame_with :: "landmark list \<Rightarrow> landmark list option \<Rightarrow> frame" where
  "frame_with iris face =
     \<lparr> iris_packet = Some iris, image_size_packet = Some (100, 100),
       face_landmarks_packet = face,
       left_iris_depth_packet = None, right_iris_depth_packet = None \<rparr>"

text \<open>\<open>frameA\<close>: the outer corner of the right eye lies 0.3 to the right of and 0.4 below the
  inner corner.  \<open>frameB\<close>: both corners at the same height.  \<open>frameZ\<close>: both corners at the
  same point.  \<open>frameC\<close>: the face of \<open>frameA\<close> with the right iris turned to the outer
  corner.  The \<open>points\<close> are the corners and centres \<^verbatim>\<open>Process\<close> reads from each.\<close>

definition frameA :: frame where
  "frameA = frame_with iris10
     (Some (face468 (pt (9/10) (9/10)) (pt (3/5) (1/2)) (pt (2/5) (1/2)) (pt (1/10) (1/2))))"

definition frameB :: frame where
  "frameB = frame_with iris10
     (Some (face468 (pt (9/10) (1/2)) (pt (3/5) (1/2)) (pt (2/5) (1/2)) (pt (1/10) (1/2))))"

definition frameZ :: frame where
  "frameZ = frame_with iris10
     (Some (face468 (pt (3/5) (1/2)) (pt (3/5) (1/2)) (pt (2/5) (1/2)) (pt (1/10) (1/2))))"

definition frameC :: frame where
  "frameC = frame_with iris10_turned
     (Some (face468 (pt (9/10) (9/10)) (pt (3/5) (1/2)) (pt (2/5) (1/2)) (pt (1/10) (1/2))))"

definition pointsA :: eye_points where
  "pointsA = \<lparr> plu_t_r = pt (9/10) (9/10), plu_n_r = pt (3/5) (1/2), plu_n_l = pt (2/5) (1/2),
               plu_t_l = pt (1/10) (1/2), plu_c_r = pt (7/10) (1/2), plu_c_l = pt (3/10) (1/2) \<rparr>"

definition pointsB :: eye_points where
  "pointsB = pointsA \<lparr> plu_t_r := pt (9/10) (1/2) \<rparr>"

definition pointsZ :: eye_points where
  "pointsZ = pointsA \<lparr> plu_t_r := pt (3/5) (1/2) \<rparr>"

definition pointsC :: eye_points where
  "pointsC = pointsA \<lparr> plu_c_r := pt (9/10) (1/2) \<rparr>"

text \<open>A frame with 9 iris landmarks, a frame with no packet at all, a frame without face
  landmarks and a left depth of 300 mm, a frame whose face list has 100 landmarks, and a
  frame whose 10 iris landmarks are one and the same point.\<close>

definition frame9 :: frame where
  "frame9 = frame_with (take 9 iris10) None"

definition frame_empty :: frame where
  "frame_empty =
     \<lparr> iris_packet = None, image_size_packet = None, face_landmarks_packet = None,
       left_iris_depth_packet = None, right_iris_depth_packet = None \<rparr>"

definition frame_no_face :: frame where
  "frame_no_face = (frame_with iris10 None) \<lparr> left_iris_depth_packet := Some (Fin 300) \<rparr>"

definition frame_short_face :: frame where
  "frame_short_face = frame_with iris10 (Some (replicate 100 (pt 0 0)))"

definition iris_flat :: "landmark list" where
  "iris_flat = replicate 10 (pt (1/2) (1/2))"

definition frame_flat :: frame where
  "frame_flat = frame_with iris_flat
     (Some (face468 (pt (9/10) (9/10)) (pt (3/5) (1/2)) (pt (2/5) (1/2)) (pt (1/10) (1/2))))"

section \<open>Basic facts\<close>

lemma landmark_in_range [simp]: "i < length lds \<Longrightarrow> landmark lds i = lds ! i"
  by (simp add: landmark_def)

lemma flt_arith_Fin [simp]:
  "Fin a + Fin b = Fin (a + b)"
  "Fin a - Fin b = Fin (a - b)"
  "Fin a * Fin b = Fin (a * b)"
  "b \<noteq> 0 \<Longrightarrow> Fin a / Fin b = Fin (a / b)"
  "- Fin a = Fin (- a)"
  by (simp_all add: plus_flt_def minus_flt_def times_flt_def divide_flt_def uminus_flt_def)

lemma flt_less_Fin [simp]:
  "(Fin a < Fin b) = (a < b)"
  "(Fin a \<le> Fin b) = (a \<le> b)"
  by (simp_all add: less_flt_def less_eq_flt_def)

lemma flt_of_int_Fin [simp]: "flt_of_int n = Fin (of_int n)"
  by (simp add: flt_of_int_def)

lemma fsqrt_Fin [simp]: "0 \<le> a \<Longrightarrow> fsqrt (Fin a) = Fin (sqrt a)"
  by simp

lemma GetDepth_Fin:
  "GetDepth (Fin x0) (Fin y0) (Fin x1) (Fin y1) =
     Fin (sqrt ((x0 - x1) * (x0 - x1) + (y0 - y1) * (y0 - y1)))"
proof -
  have "\<not> (x0 - x1) * (x0 - x1) + (y0 - y1) * (y0 - y1) < 0"
    by (simp add: not_less)
  then show ?thesis
    by (simp add: GetDepth_def)
qed

lemma left_eye_10: "length lds = 10 \<Longrightarrow> GetLeftIris lds = left_eye lds"
  by (simp add: GetLeftIris_def left_eye_def)

lemma right_eye_10: "length lds = 10 \<Longrightarrow> GetRightIris lds = right_eye lds"
  by (simp add: GetRightIris_def right_eye_def)

lemma length_eyes [simp]: "length (left_eye lds) = 5" "length (right_eye lds) = 5"
  by (simp_all add: left_eye_def right_eye_def)

lemma eye_centres [simp]: "left_eye lds ! 0 = lds ! 0" "right_eye lds ! 0 = lds ! 5"
  by (simp_all add: left_eye_def right_eye_def)

lemma CalculateIrisDiameter_5:
  "length eye = 5 \<Longrightarrow> CalculateIrisDiameter eye sz = diameter eye sz"
  by (simp add: CalculateIrisDiameter_def diameter_def Let_def)

lemma RenderIris_5:
  "length eye = 5 \<Longrightarrow>
   RenderIris eye sz (diameter eye sz) rd = rd @ eye_annotations eye sz"
  by (simp add: RenderIris_def eye_annotations_def Let_def)

lemma sqrt_400: "sqrt 400 = 20"
  using real_sqrt_abs2 [of 20] by simp

lemma sqrt_250000: "sqrt 250000 = 500"
  using real_sqrt_abs2 [of 500] by simp

section \<open>\<^verbatim>\<open>Process\<close> by cases of the frame\<close>

lemma Process_wellformed:
  assumes "iris_packet f = Some lds" "length lds = 10" "image_size_packet f = Some sz"
  shows "Process st f =
     (case face_landmarks_packet f of
        None \<Rightarrow> (st, Inr (Some (eye_annotations (left_eye lds) sz @ eye_annotations (right_eye lds) sz
                                 @ map Text (depth_lines f))))
      | Some fl \<Rightarrow>
          let rd = eye_annotations (left_eye lds) sz @ eye_annotations (right_eye lds) sz @
                     [Point (lm_x (landmark fl 263)) (lm_y (landmark fl 263)),
                      Point (lm_x (landmark fl 362)) (lm_y (landmark fl 362)),
                      Point (lm_x (landmark fl 133)) (lm_y (landmark fl 133)),
                      Point (lm_x (landmark fl 33)) (lm_y (landmark fl 33))]
          in
          (case detector_input f of
             None \<Rightarrow> (st, Inr (Some (rd @ map Text (depth_lines f))))
           | Some (p, sz', dl, dr) \<Rightarrow>
               (fst (detector st p sz' dl dr),
                Inr (Some (rd @ map Text (depth_lines f @ snd (detector st p sz' dl dr)))))))"
  using assms
  by (simp add: Process_def kNumIrisLandmarksPerEye_def left_eye_10 right_eye_10
      CalculateIrisDiameter_5 RenderIris_5 AddTextRenderData_def detector_input_def
      Let_def split_beta split: option.split)

lemma Process_malformed:
  assumes "iris_packet f = None \<or> (\<exists>lds. iris_packet f = Some lds \<and> length lds \<noteq> 10)
           \<or> image_size_packet f = None"
  shows "fst (Process st f) = st" and "detector_input f = None"
  using assms
  by (auto simp add: Process_def kNumIrisLandmarksPerEye_def detector_input_def
      split: option.split)

lemma Process_fst:
  "fst (Process st f) =
     (case detector_input f of None \<Rightarrow> st | Some (p, sz, dl, dr) \<Rightarrow> fst (detector st p sz dl dr))"
proof (cases "iris_packet f = None \<or> (\<exists>lds. iris_packet f = Some lds \<and> length lds \<noteq> 10)
           \<or> image_size_packet f = None")
  case True
  then show ?thesis
    using Process_malformed(1) [OF True, of st] Process_malformed(2) [OF True] by simp
next
  case False
  then obtain lds sz where w: "iris_packet f = Some lds" "length lds = 10" "image_size_packet f = Some sz"
    by auto
  show ?thesis
  proof (cases "face_landmarks_packet f")
    case None
    then show ?thesis
      using w by (simp add: Process_wellformed [OF w] detector_input_def)
  next
    case (Some fl)
    then show ?thesis
      using w by (auto simp add: Process_wellformed [OF w] detector_input_def Let_def
          split: option.split)
  qed
qed

lemma detector_fst:
  "fst (detector st p sz dl dr) =
     update_last (update_counts (filtered st p sz dl dr) (calc_deltas (filtered st p sz dl dr)))"
  by (simp add: detector_def Let_def)

section \<open>What each step of the detector block changes\<close>

lemma counters_filtered [simp]: "counters (filtered st p sz dl dr) = counters st"
  by (simp add: counters_def filtered_def update_filters_def Let_def)

lemma baseline_filtered [simp]: "baseline (filtered st p sz dl dr) = baseline st"
  by (simp add: baseline_def filtered_def update_filters_def Let_def)

lemma last_a_r_filtered [simp]: "last_plu_dt_a_r (filtered st p sz dl dr) = last_plu_dt_a_r st"
  by (simp add: filtered_def update_filters_def Let_def)

lemma counters_update_last [simp]: "counters (update_last st) = counters st"
  by (simp add: counters_def update_last_def)

lemma channels_update_last [simp]: "channels (update_last st) = channels st"
  by (simp add: channels_def update_last_def)

lemma a_r_update_last [simp]: "plu_dt_a_r (update_last st) = plu_dt_a_r st"
  by (simp add: update_last_def)

lemma iris_size_update_last [simp]: "plu_iris_size (update_last st) = plu_iris_size st"
  by (simp add: update_last_def)

lemma channels_update_counts [simp]: "channels (update_counts st d) = channels st"
  by (simp add: channels_def update_counts_def)

lemma baseline_update_counts [simp]: "baseline (update_counts st d) = baseline st"
  by (simp add: baseline_def update_counts_def)

lemma a_r_update_counts [simp]:
  "plu_dt_a_r (update_counts st d) = plu_dt_a_r st"
  "last_plu_dt_a_r (update_counts st d) = last_plu_dt_a_r st"
  "plu_iris_size (update_counts st d) = plu_iris_size st"
  by (simp_all add: update_counts_def)

lemma counters_update_counts:
  "counters (update_counts st d) =
     map (\<lambda>(delta, count). warn_incr delta count) (zip (delta_list d) (counters st))"
  by (simp add: counters_def delta_list_def update_counts_def)

lemma baseline_update_last:
  "baseline (update_last st) =
     (if (last_plu_dt_a_r st < Fin 0 \<or> isinf (last_plu_dt_a_r st)) \<and> Fin 0 < plu_dt_a_r st
      then channels st else baseline st)"
  by (simp add: baseline_def channels_def update_last_def)

lemma last_a_r_update_last:
  "last_plu_dt_a_r (update_last st) =
     (if (last_plu_dt_a_r st < Fin 0 \<or> isinf (last_plu_dt_a_r st)) \<and> Fin 0 < plu_dt_a_r st
      then plu_dt_a_r st else last_plu_dt_a_r st)"
  by (simp add: update_last_def)

lemma channels_filtered:
  "channels (filtered st p sz dl dr) =
     map (\<lambda>(stored, raw). smooth stored raw)
       (zip (channels st)
          (raw_list (raw_distances p sz
             (kIrisSizeInMM / smooth (plu_iris_size st) (raw_plu_iris_size dl dr)))))"
  by (simp add: channels_def raw_list_def filtered_def update_filters_def Let_def
      plu_adjust_iris_size_ratio_def)

lemma iris_size_filtered:
  "plu_iris_size (filtered st p sz dl dr) = smooth (plu_iris_size st) (raw_plu_iris_size dl dr)"
  by (simp add: filtered_def update_filters_def Let_def)

section \<open>The concrete frames, evaluated\<close>

lemma face468_nth [simp]:
  "length (face468 a b c d) = 468"
  "face468 a b c d ! 263 = a"
  "face468 a b c d ! 362 = b"
  "face468 a b c d ! 133 = c"
  "face468 a b c d ! 33 = d"
  by (simp_all add: face468_def nth_append)

lemma diameter_iris10:
  "diameter (left_eye iris10) (100, 100) = Fin 2"
  "diameter (right_eye iris10) (100, 100) = Fin 2"
  by (simp_all add: diameter_def left_eye_def right_eye_def iris10_def pt_def
      GetLandmarkDepth_def GetDepth_def)

lemma diameter_iris10_turned:
  "diameter (left_eye iris10_turned) (100, 100) = Fin 2"
  "diameter (right_eye iris10_turned) (100, 100) = Fin 2"
  by (simp_all add: diameter_def left_eye_def right_eye_def iris10_turned_def iris10_def pt_def
      GetLandmarkDepth_def GetDepth_def)

lemma iris10_nth [simp]:
  "length iris10 = 10" "length iris10_turned = 10"
  "iris10 ! 0 = pt (3/10) (1/2)" "iris10 ! 5 = pt (7/10) (1/2)"
  "iris10_turned ! 0 = pt (3/10) (1/2)" "iris10_turned ! 5 = pt (9/10) (1/2)"
  by (simp_all add: iris10_turned_def iris10_def)

lemma raw_iris_2 [simp]: "raw_plu_iris_size (Fin 2) (Fin 2) = Fin 2"
  by (simp add: raw_plu_iris_size_def)

lemma detector_input_frames:
  "detector_input frameA = Some (pointsA, (100, 100), Fin 2, Fin 2)"
  "detector_input frameB = Some (pointsB, (100, 100), Fin 2, Fin 2)"
  "detector_input frameZ = Some (pointsZ, (100, 100), Fin 2, Fin 2)"
  "detector_input frameC = Some (pointsC, (100, 100), Fin 2, Fin 2)"
  by (simp_all add: detector_input_def frameA_def frameB_def frameZ_def frameC_def frame_with_def
      diameter_iris10 diameter_iris10_turned pointsA_def pointsB_def pointsZ_def pointsC_def)

lemma run_two: "run st [f, g] = fst (Process (fst (Process st f)) g)"
  by simp

lemma run_one: "run st [f] = fst (Process st f)"
  by simp

lemma Process_frames:
  "fst (Process st frameA) = fst (detector st pointsA (100, 100) (Fin 2) (Fin 2))"
  "fst (Process st frameB) = fst (detector st pointsB (100, 100) (Fin 2) (Fin 2))"
  "fst (Process st frameZ) = fst (detector st pointsZ (100, 100) (Fin 2) (Fin 2))"
  "fst (Process st frameC) = fst (detector st pointsC (100, 100) (Fin 2) (Fin 2))"
  by (simp_all add: Process_fst detector_input_frames)

lemma iris_size_detector:
  "plu_iris_size (fst (detector st p sz dl dr)) = smooth (plu_iris_size st) (raw_plu_iris_size dl dr)"
  by (simp add: detector_fst iris_size_filtered)

lemma a_r_filtered:
  "plu_dt_a_r (filtered st p sz dl dr) =
     smooth (plu_dt_a_r st)
       (raw_plu_dt_a_r (raw_distances p sz
          (kIrisSizeInMM / smooth (plu_iris_size st) (raw_plu_iris_size dl dr))))"
  by (simp add: filtered_def update_filters_def Let_def plu_adjust_iris_size_ratio_def)

lemma a_r_detector:
  "plu_dt_a_r (fst (detector st p sz dl dr)) = plu_dt_a_r (filtered st p sz dl dr)"
  by (simp add: detector_fst)

lemma last_a_r_detector:
  "last_plu_dt_a_r (fst (detector st p sz dl dr)) =
     (if (last_plu_dt_a_r st < Fin 0 \<or> isinf (last_plu_dt_a_r st)) \<and>
         Fin 0 < plu_dt_a_r (filtered st p sz dl dr)
      then plu_dt_a_r (filtered st p sz dl dr) else last_plu_dt_a_r st)"
  by (simp add: detector_fst last_a_r_update_last)

lemma sqrt_87025: "sqrt 87025 = 295"
  using real_sqrt_abs2 [of 295] by simp

lemma sqrt_31329: "sqrt 31329 = 177"
  using real_sqrt_abs2 [of 177] by simp

lemma raw_a_r_points:
  "raw_plu_dt_a_r (raw_distances pointsA (100, 100) (Fin (59/10))) = Fin 295"
  "raw_plu_dt_a_r (raw_distances pointsC (100, 100) (Fin (59/10))) = Fin 295"
  "raw_plu_dt_a_r (raw_distances pointsB (100, 100) (Fin (59/10))) = Fin 177"
  "raw_plu_dt_a_r (raw_distances pointsZ (100, 100) (Fin (59/10))) = Fin 0"
  by (simp_all add: raw_distances_def Let_def pointsA_def pointsB_def pointsC_def pointsZ_def pt_def
      sqrt_87025 sqrt_31329)

lemma ratio_2 [simp]: "kIrisSizeInMM / Fin 2 = Fin (59/10)"
  by (simp add: kIrisSizeInMM_def)

lemma smooth_2_2 [simp]: "smooth (Fin 2) (Fin 2) = Fin 2"
  by (simp add: smooth_def kDepthWeightUpdate_def)

lemma smooth_cold [simp]: "smooth (Fin (- 1)) r = r"
  by (simp add: smooth_def)

lemma smooth_Fin: "0 \<le> s \<Longrightarrow> smooth (Fin s) (Fin r) = Fin (s * (9/10) + r * (1/10))"
  by (simp add: smooth_def kDepthWeightUpdate_def)

lemma initial_fields [simp]:
  "plu_iris_size initial_state = Fin (- 1)"
  "plu_dt_a_r initial_state = Fin (- 1)"
  "last_plu_dt_a_r initial_state = Fin (- 1)"
  by (simp_all add: initial_state_def)

lemma after_frameA:
  "plu_iris_size (run initial_state [frameA]) = Fin 2"
  "plu_dt_a_r (run initial_state [frameA]) = Fin 295"
  "last_plu_dt_a_r (run initial_state [frameA]) = Fin 295"
  by (simp_all add: Process_frames iris_size_detector a_r_detector last_a_r_detector a_r_filtered
      raw_a_r_points)

lemma after_frameZ:
  "plu_iris_size (run initial_state [frameZ]) = Fin 2"
  "plu_dt_a_r (run initial_state [frameZ]) = Fin 0"
  "last_plu_dt_a_r (run initial_state [frameZ]) = Fin (- 1)"
  by (simp_all add: Process_frames iris_size_detector a_r_detector last_a_r_detector a_r_filtered
      raw_a_r_points)

section \<open>Single members after a frame\<close>

lemma x_filtered:
  "plu_dt_n_r_x (filtered st p sz dl dr) =
     smooth (plu_dt_n_r_x st)
       (raw_plu_dt_n_r_x (raw_distances p sz
          (kIrisSizeInMM / smooth (plu_iris_size st) (raw_plu_iris_size dl dr))))"
  "plu_dt_t_r_x (filtered st p sz dl dr) =
     smooth (plu_dt_t_r_x st)
       (raw_plu_dt_t_r_x (raw_distances p sz
          (kIrisSizeInMM / smooth (plu_iris_size st) (raw_plu_iris_size dl dr))))"
  "plu_dt_a_r_y (filtered st p sz dl dr) =
     smooth (plu_dt_a_r_y st)
       (raw_plu_dt_a_r_y (raw_distances p sz
          (kIrisSizeInMM / smooth (plu_iris_size st) (raw_plu_iris_size dl dr))))"
  "last_plu_dt_n_r_x (filtered st p sz dl dr) = last_plu_dt_n_r_x st"
  "last_plu_dt_t_r_x (filtered st p sz dl dr) = last_plu_dt_t_r_x st"
  "warn_delta_plu_r_x_count (filtered st p sz dl dr) = warn_delta_plu_r_x_count st"
  by (simp_all add: filtered_def update_filters_def Let_def plu_adjust_iris_size_ratio_def)

lemma x_detector:
  "plu_dt_n_r_x (fst (detector st p sz dl dr)) = plu_dt_n_r_x (filtered st p sz dl dr)"
  "plu_dt_t_r_x (fst (detector st p sz dl dr)) = plu_dt_t_r_x (filtered st p sz dl dr)"
  "plu_dt_a_r_y (fst (detector st p sz dl dr)) = plu_dt_a_r_y (filtered st p sz dl dr)"
  "last_plu_dt_n_r_x (fst (detector st p sz dl dr)) =
     (if (last_plu_dt_a_r st < Fin 0 \<or> isinf (last_plu_dt_a_r st)) \<and>
         Fin 0 < plu_dt_a_r (filtered st p sz dl dr)
      then plu_dt_n_r_x (filtered st p sz dl dr) else last_plu_dt_n_r_x st)"
  "last_plu_dt_t_r_x (fst (detector st p sz dl dr)) =
     (if (last_plu_dt_a_r st < Fin 0 \<or> isinf (last_plu_dt_a_r st)) \<and>
         Fin 0 < plu_dt_a_r (filtered st p sz dl dr)
      then plu_dt_t_r_x (filtered st p sz dl dr) else last_plu_dt_t_r_x st)"
  "warn_delta_plu_r_x_count (fst (detector st p sz dl dr)) =
     warn_incr (delta_plu_r_x (calc_deltas (filtered st p sz dl dr))) (warn_delta_plu_r_x_count st)"
  by (simp_all add: detector_fst update_last_def update_counts_def x_filtered)

lemma sqrt_squares: "sqrt 9 = 3" "sqrt 25 = 5" "sqrt 100 = 10"
  using real_sqrt_abs2 [of 3] real_sqrt_abs2 [of 5] real_sqrt_abs2 [of 10] by simp_all

lemma raw_x_points:
  "raw_plu_dt_n_r_x (raw_distances pointsA (100, 100) (Fin (59/10))) = Fin 59"
  "raw_plu_dt_t_r_x (raw_distances pointsA (100, 100) (Fin (59/10))) = Fin 118"
  "raw_plu_dt_n_r_x (raw_distances pointsC (100, 100) (Fin (59/10))) = Fin 177"
  "raw_plu_dt_t_r_x (raw_distances pointsC (100, 100) (Fin (59/10))) = Fin 0"
  "raw_plu_dt_a_r_y (raw_distances pointsA (100, 100) (Fin (59/10))) = Fin 236"
  "raw_plu_dt_a_r_y (raw_distances pointsB (100, 100) (Fin (59/10))) = Fin 0"
  by (simp_all add: raw_distances_def Let_def pointsA_def pointsB_def pointsC_def pt_def
      real_sqrt_divide sqrt_squares)

lemma initial_fields_x [simp]:
  "plu_dt_n_r_x initial_state = Fin (- 1)"
  "plu_dt_t_r_x initial_state = Fin (- 1)"
  "plu_dt_a_r_y initial_state = Fin (- 1)"
  "last_plu_dt_n_r_x initial_state = Fin (- 1)"
  "last_plu_dt_t_r_x initial_state = Fin (- 1)"
  "warn_delta_plu_r_x_count initial_state = 0"
  by (simp_all add: initial_state_def)

lemmas evaluate =
  Process_frames iris_size_detector a_r_detector last_a_r_detector a_r_filtered raw_a_r_points
  x_detector x_filtered raw_x_points smooth_Fin

lemma delta_r_x_frameC:
  "delta_plu_r_x (calc_deltas (filtered (fst (Process initial_state frameA)) pointsC (100, 100) (Fin 2) (Fin 2)))
   = Fin (236/5)"
  by (simp add: calc_deltas_def Let_def evaluate kDeltaAdjustInMM_def)

lemma count_after_frameA: "warn_delta_plu_r_x_count (fst (Process initial_state frameA)) = 0"
  by (simp add: evaluate calc_deltas_def warn_incr_def kDeltaStrabismusThresholdInMM_def)

section \<open>The counters and the smoothed values after a frame\<close>

lemma sint_incr: "sint c < 2147483647 \<Longrightarrow> sint (c + 1 :: 32 word) = sint c + 1"
proof -
  assume a: "sint c < 2147483647"
  have l: "- (2 ^ 31) \<le> sint c"
    using sint_ge [of c] by simp
  have "sint (c + 1) = signed_take_bit 31 (sint c + 1)"
    by (simp add: sint_word_ariths)
  also have "\<dots> = sint c + 1"
    using a l by (intro signed_take_bit_int_eq_self) simp_all
  finally show ?thesis .
qed

lemma counters_detector:
  "counters (fst (detector st p sz dl dr)) =
     map (\<lambda>(delta, count). warn_incr delta count)
       (zip (delta_list (calc_deltas (filtered st p sz dl dr))) (counters st))"
  by (simp add: detector_fst counters_update_counts)

lemma length_lists [simp]:
  "length (counters st) = 9" "length (delta_list d) = 9"
  "length (channels st) = 18" "length (baseline st) = 18" "length (raw_list r) = 18"
  by (simp_all add: counters_def delta_list_def channels_def baseline_def raw_list_def)

lemma counters_Process:
  "counters (fst (Process st f)) =
     (case detector_input f of
        None \<Rightarrow> counters st
      | Some (p, sz, dl, dr) \<Rightarrow>
          map (\<lambda>(delta, count). if Fin 6 < delta then count + 1 else count)
            (zip (delta_list (calc_deltas (filtered st p sz dl dr))) (counters st)))"
  by (cases "detector_input f")
     (auto simp add: Process_fst counters_detector warn_incr_def kDeltaStrabismusThresholdInMM_def)

lemma counters_step:
  "list_all2 (\<lambda>c c'. c' = c \<or> c' = c + 1) (counters st) (counters (fst (Process st f)))"
proof (cases "detector_input f")
  case None
  then show ?thesis
    by (simp add: Process_fst list.rel_refl)
next
  case (Some a)
  then obtain p sz dl dr where "detector_input f = Some (p, sz, dl, dr)"
    by (cases a) auto
  then show ?thesis
    by (simp add: Process_fst counters_detector list_all2_conv_all_nth warn_incr_def)
qed

lemma step_below_max:
  assumes "list_all2 (\<lambda>c c'. c' = c \<or> c' = c + 1) cs cs'"
    and "list_all (\<lambda>c. sint c + (k + 1) \<le> 2147483647) cs" and "0 \<le> k"
  shows "list_all2 (\<lambda>c c'. sint c \<le> sint c') cs (cs' :: 32 word list)"
    and "list_all (\<lambda>c. sint c + k \<le> 2147483647) cs'"
proof -
  have n: "length cs = length cs'"
    using assms(1) by (rule list_all2_lengthD)
  have one: "sint (cs ! i) \<le> sint (cs' ! i) \<and> sint (cs' ! i) + k \<le> 2147483647"
    if "i < length cs" for i
  proof -
    have b: "sint (cs ! i) + (k + 1) \<le> 2147483647"
      using assms(2) that by (simp add: list_all_length)
    then have "sint (cs ! i + 1) = sint (cs ! i) + 1"
      using assms(3) by (intro sint_incr) simp
    moreover have "cs' ! i = cs ! i \<or> cs' ! i = cs ! i + 1"
      using assms(1) that by (simp add: list_all2_conv_all_nth)
    ultimately show ?thesis
      using b assms(3) by auto
  qed
  show "list_all2 (\<lambda>c c'. sint c \<le> sint c') cs cs'"
    using n one by (simp add: list_all2_conv_all_nth)
  show "list_all (\<lambda>c. sint c + k \<le> 2147483647) cs'"
    using n one by (simp add: list_all_length)
qed

lemma counters_run_mono:
  "list_all (\<lambda>c. sint c + int (length fs) \<le> 2147483647) (counters st) \<Longrightarrow>
   list_all2 (\<lambda>c c'. sint c \<le> sint c') (counters st) (counters (run st fs))"
proof (induction fs arbitrary: st)
  case Nil
  then show ?case by (simp add: list.rel_refl)
next
  case (Cons f fs)
  have b: "list_all (\<lambda>c. sint c + (int (length fs) + 1) \<le> 2147483647) (counters st)"
    using Cons.prems by (simp add: add.commute)
  have m: "list_all2 (\<lambda>c c'. sint c \<le> sint c') (counters st) (counters (fst (Process st f)))"
    using counters_step b by (rule step_below_max(1)) simp
  have "list_all (\<lambda>c. sint c + int (length fs) \<le> 2147483647) (counters (fst (Process st f)))"
    using counters_step b by (rule step_below_max(2)) simp
  then have "list_all2 (\<lambda>c c'. sint c \<le> sint c')
      (counters (fst (Process st f))) (counters (run (fst (Process st f)) fs))"
    by (rule Cons.IH)
  with m have "list_all2 (\<lambda>c c'. sint c \<le> sint c')
      (counters st) (counters (run (fst (Process st f)) fs))"
    by (rule list_all2_trans [rotated]) simp
  then show ?case by simp
qed

text \<open>\<open>frameC\<close> sent again and again after \<open>frameA\<close>: the delta of the right eye along x stays
  above 6, so every frame adds 1 to its counter.\<close>

lemma steady_after_frameA: "steady (fst (Process initial_state frameA))"
  by (simp add: steady_def evaluate)

lemma steady_step:
  assumes "steady st"
  shows "steady (fst (Process st frameC))"
    and "warn_delta_plu_r_x_count (fst (Process st frameC)) = warn_delta_plu_r_x_count st + 1"
proof -
  obtain a b where f: "plu_iris_size st = Fin 2" "plu_dt_a_r st = Fin 295"
    "last_plu_dt_a_r st = Fin 295" "last_plu_dt_n_r_x st = Fin 59" "last_plu_dt_t_r_x st = Fin 118"
    "plu_dt_n_r_x st = Fin a" "plu_dt_t_r_x st = Fin b"
    and r: "59 \<le> a" "0 \<le> b" "b \<le> 118"
    using assms by (auto simp add: steady_def)
  have n: "plu_dt_n_r_x (fst (Process st frameC)) = Fin (a * (9/10) + 177 * (1/10))"
    and t: "plu_dt_t_r_x (fst (Process st frameC)) = Fin (b * (9/10))"
    using r by (simp_all add: evaluate f)
  have "59 \<le> a * (9/10) + 177 * (1/10)" "0 \<le> b * (9/10)" "b * (9/10) \<le> 118"
    using r by simp_all
  then have "(\<exists>a'. 59 \<le> a' \<and> plu_dt_n_r_x (fst (Process st frameC)) = Fin a') \<and>
             (\<exists>b'. 0 \<le> b' \<and> b' \<le> 118 \<and> plu_dt_t_r_x (fst (Process st frameC)) = Fin b')"
    unfolding n t by blast
  moreover have "plu_iris_size (fst (Process st frameC)) = Fin 2"
    "plu_dt_a_r (fst (Process st frameC)) = Fin 295"
    "last_plu_dt_a_r (fst (Process st frameC)) = Fin 295"
    "last_plu_dt_n_r_x (fst (Process st frameC)) = Fin 59"
    "last_plu_dt_t_r_x (fst (Process st frameC)) = Fin 118"
    by (simp_all add: evaluate f)
  ultimately show "steady (fst (Process st frameC))"
    unfolding steady_def by blast
  have "delta_plu_r_x (calc_deltas (filtered st pointsC (100, 100) (Fin 2) (Fin 2))) =
        Fin (((a * (9/10) + 177 * (1/10) - 59) - (b * (9/10) - 118)) * 4 / 2)"
    using r by (simp add: calc_deltas_def Let_def evaluate f kDeltaAdjustInMM_def)
  moreover have "6 < ((a * (9/10) + 177 * (1/10) - 59) - (b * (9/10) - 118)) * 4 / 2"
    using r by simp
  ultimately show
    "warn_delta_plu_r_x_count (fst (Process st frameC)) = warn_delta_plu_r_x_count st + 1"
    by (simp add: evaluate warn_incr_def kDeltaStrabismusThresholdInMM_def)
qed

lemma steady_run:
  "steady st \<Longrightarrow>
   warn_delta_plu_r_x_count (run st (replicate n frameC)) = warn_delta_plu_r_x_count st + of_nat n"
proof (induction n arbitrary: st)
  case 0
  then show ?case by simp
next
  case (Suc n)
  have "warn_delta_plu_r_x_count (run (fst (Process st frameC)) (replicate n frameC)) =
        warn_delta_plu_r_x_count (fst (Process st frameC)) + of_nat n"
    using Suc.prems by (intro Suc.IH steady_step(1))
  then show ?case
    using Suc.prems by (simp add: steady_step(2))
qed

lemma count_after_turns:
  "warn_delta_plu_r_x_count (run initial_state (frameA # replicate n frameC)) = of_nat n"
  using steady_run [OF steady_after_frameA, of n] by (simp add: count_after_frameA)

lemma channels_detector:
  "channels (fst (detector st p sz dl dr)) =
     map (\<lambda>(stored, raw). smooth stored raw)
       (zip (channels st)
          (raw_list (raw_distances p sz
             (kIrisSizeInMM / plu_iris_size (fst (detector st p sz dl dr))))))"
  by (simp add: detector_fst channels_filtered iris_size_filtered)

lemma detector_input_positive:
  "detector_input f = Some (p, sz, dl, dr) \<Longrightarrow> Fin 0 < raw_plu_iris_size dl dr"
  by (auto simp add: detector_input_def split: option.splits if_splits)

section \<open>The baseline changes only in the last step\<close>

lemma flt_pos_not_neg: "Fin 0 < v \<Longrightarrow> \<not> v < Fin 0"
  by (cases v) (simp_all add: less_flt_def)

lemma baseline_detector:
  "baseline (fst (detector st p sz dl dr)) =
     (if (last_plu_dt_a_r st < Fin 0 \<or> isinf (last_plu_dt_a_r st)) \<and>
         Fin 0 < plu_dt_a_r (fst (detector st p sz dl dr))
      then channels (fst (detector st p sz dl dr)) else baseline st)"
  by (simp add: detector_fst baseline_update_last)

lemma baseline_Process:
  "baseline (fst (Process st f)) =
     (if detector_input f \<noteq> None \<and>
         (last_plu_dt_a_r st < Fin 0 \<or> isinf (last_plu_dt_a_r st)) \<and>
         Fin 0 < plu_dt_a_r (fst (Process st f))
      then channels (fst (Process st f)) else baseline st)"
  by (cases "detector_input f") (auto simp add: Process_fst baseline_detector)

lemma last_a_r_Process:
  "last_plu_dt_a_r (fst (Process st f)) =
     (if detector_input f \<noteq> None \<and>
         (last_plu_dt_a_r st < Fin 0 \<or> isinf (last_plu_dt_a_r st)) \<and>
         Fin 0 < plu_dt_a_r (fst (Process st f))
      then plu_dt_a_r (fst (Process st f)) else last_plu_dt_a_r st)"
  by (cases "detector_input f") (auto simp add: Process_fst last_a_r_detector a_r_detector)

lemma frozen_step:
  assumes "Fin 0 < last_plu_dt_a_r st" and "\<not> isinf (last_plu_dt_a_r st)"
  shows "baseline (fst (Process st f)) = baseline st"
    and "last_plu_dt_a_r (fst (Process st f)) = last_plu_dt_a_r st"
  using assms flt_pos_not_neg [of "last_plu_dt_a_r st"]
  by (simp_all add: baseline_Process last_a_r_Process)

lemma frozen_run:
  "Fin 0 < last_plu_dt_a_r st \<Longrightarrow> \<not> isinf (last_plu_dt_a_r st) \<Longrightarrow>
   baseline (run st fs) = baseline st"
proof (induction fs arbitrary: st)
  case Nil
  then show ?case by simp
next
  case (Cons f fs)
  have "baseline (run (fst (Process st f)) fs) = baseline (fst (Process st f))"
    using Cons.prems by (intro Cons.IH) (simp_all add: frozen_step)
  then show ?case
    using Cons.prems by (simp add: frozen_step)
qed

lemma after_frameA_frameB:
  "plu_dt_a_r (run initial_state [frameA, frameB]) = Fin (1416/5)"
proof -
  have "plu_dt_a_r (fst (Process (run initial_state [frameA]) frameB)) = Fin (1416/5)"
    by (simp add: Process_frames iris_size_detector a_r_detector a_r_filtered raw_a_r_points smooth_Fin)
  then show ?thesis
    by simp
qed

section \<open>Members after frames with finite landmarks\<close>

lemma is_fin_iff: "is_fin v = (\<exists>a. v = Fin a)"
  by (cases v) simp_all

lemma is_pos_fin_iff: "is_pos_fin v = (\<exists>a. 0 < a \<and> v = Fin a)"
  by (cases v) simp_all

lemma finite_landmark_iff: "finite_landmark l = (\<exists>a b. l = NormalizedLandmark (Fin a) (Fin b))"
  by (cases l) (simp add: finite_landmark_def is_fin_iff)

lemma GetLandmarkDepth_finite:
  assumes "finite_landmark k" and "finite_landmark l"
  shows "\<exists>d. 0 \<le> d \<and> GetLandmarkDepth k l sz = Fin d"
proof -
  obtain a b c d where "k = NormalizedLandmark (Fin a) (Fin b)" "l = NormalizedLandmark (Fin c) (Fin d)"
    using assms by (auto simp add: finite_landmark_iff)
  then show ?thesis
    by (simp add: GetLandmarkDepth_def GetDepth_Fin)
qed

lemma diameter_finite:
  assumes "list_all finite_landmark eye" and "length eye = 5"
  shows "\<exists>d. 0 \<le> d \<and> diameter eye sz = Fin d"
proof -
  have f: "finite_landmark (eye ! 1)" "finite_landmark (eye ! 2)"
    "finite_landmark (eye ! 3)" "finite_landmark (eye ! 4)"
    using assms by (simp_all add: list_all_length)
  obtain h where h: "0 \<le> h" "GetLandmarkDepth (eye ! 3) (eye ! 4) sz = Fin h"
    using GetLandmarkDepth_finite [OF f(3) f(4)] by blast
  obtain v where v: "0 \<le> v" "GetLandmarkDepth (eye ! 1) (eye ! 2) sz = Fin v"
    using GetLandmarkDepth_finite [OF f(1) f(2)] by blast
  have "0 \<le> (h + v) / 2" and "diameter eye sz = Fin ((h + v) / 2)"
    using h v by (simp_all add: diameter_def)
  then show ?thesis
    by blast
qed

lemma eyes_finite:
  assumes "list_all finite_landmark lds" and "length lds = 10"
  shows "list_all finite_landmark (left_eye lds)" and "list_all finite_landmark (right_eye lds)"
proof -
  have "finite_landmark (lds ! n)" if "n < 10" for n
    using assms that by (simp add: list_all_length)
  then show "list_all finite_landmark (left_eye lds)" and "list_all finite_landmark (right_eye lds)"
    by (simp_all add: left_eye_def right_eye_def)
qed

lemma raw_plu_iris_size_Fin: "raw_plu_iris_size (Fin a) (Fin b) = Fin (max a b)"
  by (simp add: raw_plu_iris_size_def max_def)

lemma smooth_cases:
  "smooth (Fin c) (Fin r) = (if c < 0 then Fin r else Fin (c * (9/10) + r * (1/10)))"
  "smooth PInf v = v" "smooth NInf v = v"
  "smooth NaN (Fin r) = NaN"
  by (simp_all add: smooth_def kDepthWeightUpdate_def less_flt_def times_flt_def plus_flt_def
      minus_flt_def)

lemma smooth_pos_from_any:
  "s \<noteq> NaN \<Longrightarrow> 0 < m \<Longrightarrow> is_pos_fin (smooth s (Fin m))"
  by (cases s) (simp_all add: smooth_cases add_nonneg_pos)

lemma smooth_pos_from_pos:
  "is_pos_fin old \<Longrightarrow> 0 \<le> r \<Longrightarrow> is_pos_fin (smooth old (Fin r))"
  by (cases old) (simp_all add: smooth_cases add_pos_nonneg)

lemma smooth_pos_if_positive:
  "Fin 0 < smooth old (Fin r) \<Longrightarrow> is_pos_fin (smooth old (Fin r))"
  by (cases old) (simp_all add: smooth_cases less_flt_def split: if_splits)

lemma ratio_finite: "is_pos_fin s \<Longrightarrow> \<exists>k. kIrisSizeInMM / s = Fin k"
  by (cases s) (simp_all add: kIrisSizeInMM_def)

lemma raw_a_r_finite:
  assumes "finite_landmark (plu_t_r p)" and "finite_landmark (plu_n_r p)"
  shows "\<exists>r. 0 \<le> r \<and> raw_plu_dt_a_r (raw_distances p sz (Fin k)) = Fin r"
proof -
  obtain a b c d where "plu_t_r p = NormalizedLandmark (Fin a) (Fin b)"
    "plu_n_r p = NormalizedLandmark (Fin c) (Fin d)"
    using assms by (auto simp add: finite_landmark_iff)
  then show ?thesis
    by (simp add: raw_distances_def Let_def not_less)
qed

lemma detector_input_finite:
  assumes "detector_input f = Some (p, sz, dl, dr)" and "finite_frame f"
  shows "finite_landmark (plu_t_r p)" and "finite_landmark (plu_n_r p)"
    and "\<exists>m. 0 < m \<and> raw_plu_iris_size dl dr = Fin m"
proof -
  obtain lds fl where i: "iris_packet f = Some lds" "face_landmarks_packet f = Some fl"
    "image_size_packet f = Some sz"
    "length lds = 10"
    "Fin 0 < raw_plu_iris_size dl dr"
    "dl = diameter (left_eye lds) sz" "dr = diameter (right_eye lds) sz"
    "plu_t_r p = landmark fl 263" "plu_n_r p = landmark fl 362"
    using assms(1) by (auto simp add: detector_input_def split: option.splits if_splits)
  have fin: "list_all finite_landmark lds" "list_all finite_landmark fl" "363 \<le> length fl"
    using assms(2) i by (simp_all add: finite_frame_def)
  have "263 < length fl" "362 < length fl"
    using fin(3) by simp_all
  then show "finite_landmark (plu_t_r p)" "finite_landmark (plu_n_r p)"
    using fin(2) i by (simp_all add: list_all_length)
  obtain a where a: "dl = Fin a"
    using diameter_finite [OF eyes_finite(1) [OF fin(1) i(4)], of sz] i by auto
  obtain b where b: "dr = Fin b"
    using diameter_finite [OF eyes_finite(2) [OF fin(1) i(4)], of sz] i by auto
  show "\<exists>m. 0 < m \<and> raw_plu_iris_size dl dr = Fin m"
    using i(5) by (simp add: a b raw_plu_iris_size_Fin)
qed

lemma a_r_after_finite:
  assumes "detector_input f = Some (p, sz, dl, dr)" and "finite_frame f"
    and "plu_iris_size st \<noteq> NaN"
  shows "is_pos_fin (plu_iris_size (filtered st p sz dl dr))"
    and "\<exists>r. 0 \<le> r \<and> plu_dt_a_r (filtered st p sz dl dr) = smooth (plu_dt_a_r st) (Fin r)"
proof -
  obtain m where m: "0 < m" "raw_plu_iris_size dl dr = Fin m"
    using detector_input_finite(3) [OF assms(1,2)] by blast
  show s: "is_pos_fin (plu_iris_size (filtered st p sz dl dr))"
    using smooth_pos_from_any [OF assms(3) m(1)] by (simp add: iris_size_filtered m)
  then obtain k where "kIrisSizeInMM / smooth (plu_iris_size st) (raw_plu_iris_size dl dr) = Fin k"
    using ratio_finite by (auto simp add: iris_size_filtered)
  then show "\<exists>r. 0 \<le> r \<and> plu_dt_a_r (filtered st p sz dl dr) = smooth (plu_dt_a_r st) (Fin r)"
    using raw_a_r_finite [OF detector_input_finite(1,2) [OF assms(1,2)], of sz k]
    by (auto simp add: a_r_filtered)
qed

lemma members_sane_detector:
  assumes "detector_input f = Some (p, sz, dl, dr)" and "finite_frame f" and "members_sane st"
  shows "members_sane (fst (detector st p sz dl dr))"
proof -
  have n: "plu_iris_size st \<noteq> NaN"
    using assms(3) by (simp add: members_sane_def)
  obtain r where r: "0 \<le> r" "plu_dt_a_r (filtered st p sz dl dr) = smooth (plu_dt_a_r st) (Fin r)"
    using a_r_after_finite(2) [OF assms(1,2) n] by blast
  have "plu_iris_size (fst (detector st p sz dl dr)) \<noteq> NaN"
    using a_r_after_finite(1) [OF assms(1,2) n] by (auto simp add: detector_fst)
  moreover have "is_pos_fin (plu_dt_a_r (fst (detector st p sz dl dr)))"
    if "Fin 0 < last_plu_dt_a_r (fst (detector st p sz dl dr))"
  proof (cases "(last_plu_dt_a_r st < Fin 0 \<or> isinf (last_plu_dt_a_r st)) \<and>
         Fin 0 < plu_dt_a_r (filtered st p sz dl dr)")
    case True
    then show ?thesis
      using smooth_pos_if_positive [of "plu_dt_a_r st" r] by (simp add: a_r_detector r)
  next
    case False
    then have "Fin 0 < last_plu_dt_a_r st"
      using that by (auto simp add: last_a_r_detector split: if_splits)
    then have "is_pos_fin (plu_dt_a_r st)"
      using assms(3) by (simp add: members_sane_def)
    then show ?thesis
      using smooth_pos_from_pos [OF _ r(1)] by (simp add: a_r_detector r)
  qed
  ultimately show ?thesis
    by (simp add: members_sane_def)
qed

lemma members_sane_Process:
  "finite_frame f \<Longrightarrow> members_sane st \<Longrightarrow> members_sane (fst (Process st f))"
  by (cases "detector_input f") (auto simp add: Process_fst members_sane_detector)

lemma members_sane_run:
  "list_all finite_frame fs \<Longrightarrow> members_sane st \<Longrightarrow> members_sane (run st fs)"
  by (induction fs arbitrary: st) (simp_all add: members_sane_Process)

lemma members_sane_initial: "members_sane initial_state"
  by (simp add: members_sane_def less_flt_def)

lemma a_r_positive_when_frozen:
  assumes "list_all finite_frame fs" and "finite_frame f"
    and "detector_input f = Some (p, sz, dl, dr)"
    and "Fin 0 < last_plu_dt_a_r (run initial_state fs)"
  shows "Fin 0 < plu_dt_a_r (filtered (run initial_state fs) p sz dl dr)"
proof -
  let ?st = "run initial_state fs"
  have s: "members_sane ?st"
    using assms(1) members_sane_initial by (rule members_sane_run)
  then have n: "plu_iris_size ?st \<noteq> NaN" and a: "is_pos_fin (plu_dt_a_r ?st)"
    using assms(4) by (simp_all add: members_sane_def)
  obtain r where r: "0 \<le> r" "plu_dt_a_r (filtered ?st p sz dl dr) = smooth (plu_dt_a_r ?st) (Fin r)"
    using a_r_after_finite(2) [OF assms(3,2) n] by blast
  have "is_pos_fin (smooth (plu_dt_a_r ?st) (Fin r))"
    using a r(1) by (rule smooth_pos_from_pos)
  then show ?thesis
    by (auto simp add: r is_pos_fin_iff)
qed

section \<open>The lines of the detector in the output\<close>

lemma detector_snd:
  "snd (detector st p sz dl dr) =
     detector_lines (fst (detector st p sz dl dr)) (calc_deltas (filtered st p sz dl dr)) dl dr"
  by (simp add: detector_def Let_def)

lemma detector_input_packets:
  assumes "detector_input f = Some (p, sz, dl, dr)"
  shows "\<exists>lds fl. iris_packet f = Some lds \<and> length lds = 10 \<and> image_size_packet f = Some sz \<and>
           face_landmarks_packet f = Some fl"
  using assms by (auto simp add: detector_input_def split: option.splits if_splits)

lemma Process_snd_detector:
  assumes "detector_input f = Some (p, sz, dl, dr)"
  shows "\<exists>rd. snd (Process st f) =
           Inr (Some (rd @ map Text (depth_lines f @
             detector_lines (fst (Process st f)) (calc_deltas (filtered st p sz dl dr)) dl dr)))"
proof -
  obtain lds fl where w: "iris_packet f = Some lds" "length lds = 10" "image_size_packet f = Some sz"
    and fl: "face_landmarks_packet f = Some fl"
    using detector_input_packets [OF assms] by blast
  show ?thesis
    using fl assms
    by (simp add: Process_wellformed [OF w] Let_def detector_snd del: map_append)
qed

lemma Process_wellformed_no_failure:
  assumes "iris_packet f = Some lds" "length lds = 10" "image_size_packet f = Some sz"
  shows "\<not> isl (snd (Process st f))"
  by (simp add: Process_wellformed [OF assms] Let_def split: option.split)

lemma finite_pt [simp]: "finite_landmark (pt a b)"
  by (simp add: finite_landmark_def pt_def)

lemma finite_frames:
  "finite_frame frameA" "finite_frame frameC"
  by (simp_all add: finite_frame_def frameA_def frameC_def frame_with_def face468_def
      iris10_turned_def iris10_def list_all_iff)

section \<open>Partition of the iris landmarks\<close>

text \<open>
  Claim C7.  For every list of 10 iris landmarks, \<^verbatim>\<open>GetLeftIris\<close> yields the 5 landmarks at
  the source indices 0, 2, 4, 3, 1 and \<^verbatim>\<open>GetRightIris\<close> those at 5, 7, 9, 6, 8, in this
  order (centre, top, bottom, left, right); in particular the first landmark of each eye
  is the input landmark at the centre index 0, respectively 5.  Both are functions of the
  input list, which they only read.
\<close>

theorem partition_fixed_indices:
  assumes "length lds = 10"
  shows "GetLeftIris lds = [lds ! 0, lds ! 2, lds ! 4, lds ! 3, lds ! 1] \<and>
         GetRightIris lds = [lds ! 5, lds ! 7, lds ! 9, lds ! 6, lds ! 8] \<and>
         hd (GetLeftIris lds) = lds ! 0 \<and>
         hd (GetRightIris lds) = lds ! 5"
  using assms by (simp add: GetLeftIris_def GetRightIris_def)

theorem partition_fixed_indices_witness:
  "length iris10 = 10 \<and>
   GetLeftIris iris10 =
     [pt (3/10) (1/2), pt (3/10) (49/100), pt (3/10) (51/100), pt (29/100) (1/2),
      pt (31/100) (1/2)] \<and>
   GetRightIris iris10 =
     [pt (7/10) (1/2), pt (7/10) (49/100), pt (7/10) (51/100), pt (69/100) (1/2),
      pt (71/100) (1/2)]"
  using partition_fixed_indices [of iris10] by (simp add: iris10_def)

section \<open>Iris diameter and depth\<close>

text \<open>
  Claim C8.  For an eye of 5 landmarks (centre, top, bottom, left, right) with finite
  coordinates and an image of \<open>w\<close> by \<open>h\<close> pixels, \<^verbatim>\<open>CalculateIrisDiameter\<close> is the mean of
  the distance in pixels from top to bottom and from left to right, the coordinates being
  scaled by \<open>w\<close> and \<open>h\<close> before the distance is taken.  For a finite centre, focal length
  and image size and a positive iris size, \<^verbatim>\<open>CalculateDepth\<close> is 11.8 times the square
  root of the squared focal length plus the squared distance in pixels from the image centre
  to the landmark, divided by the iris size.  Arithmetic is exact here (no rounding).
\<close>

theorem diameter_and_depth_formulas:
  assumes "0 < s"
  shows "CalculateIrisDiameter
           [c, NormalizedLandmark (Fin tx) (Fin ty), NormalizedLandmark (Fin btx) (Fin bty),
               NormalizedLandmark (Fin lx) (Fin ly), NormalizedLandmark (Fin rx) (Fin ry)] (w, h) =
         Fin ((sqrt ((tx * of_int w - btx * of_int w)\<^sup>2 + (ty * of_int h - bty * of_int h)\<^sup>2) +
               sqrt ((lx * of_int w - rx * of_int w)\<^sup>2 + (ly * of_int h - ry * of_int h)\<^sup>2)) / 2) \<and>
         CalculateDepth (NormalizedLandmark (Fin cx) (Fin cy)) (Fin fl) (Fin s) (Fin iw) (Fin ih) =
         Fin (118 / 10 * sqrt (fl\<^sup>2 + ((iw / 2 - cx * iw)\<^sup>2 + (ih / 2 - cy * ih)\<^sup>2)) / s)"
proof
  show "CalculateIrisDiameter
           [c, NormalizedLandmark (Fin tx) (Fin ty), NormalizedLandmark (Fin btx) (Fin bty),
               NormalizedLandmark (Fin lx) (Fin ly), NormalizedLandmark (Fin rx) (Fin ry)] (w, h) =
         Fin ((sqrt ((tx * of_int w - btx * of_int w)\<^sup>2 + (ty * of_int h - bty * of_int h)\<^sup>2) +
               sqrt ((lx * of_int w - rx * of_int w)\<^sup>2 + (ly * of_int h - ry * of_int h)\<^sup>2)) / 2)"
    by (simp add: CalculateIrisDiameter_def GetLandmarkDepth_def GetDepth_Fin power2_eq_square
        add.commute Let_def)
next
  define d where "d = (iw / 2 - cx * iw)\<^sup>2 + (ih / 2 - cy * ih)\<^sup>2"
  have d0: "0 \<le> d"
    by (simp add: d_def)
  have y: "GetDepth (Fin iw / Fin 2) (Fin ih / Fin 2) (Fin cx * Fin iw) (Fin cy * Fin ih) = Fin (sqrt d)"
    by (simp add: GetDepth_Fin d_def power2_eq_square)
  have sq: "sqrt d * sqrt d = d"
    using d0 by simp
  have nn: "0 \<le> fl * fl + d"
    using d0 by simp
  have "fsqrt (Fin fl * Fin fl + Fin (sqrt d) * Fin (sqrt d)) = fsqrt (Fin (fl * fl + d))"
    using sq by simp
  also have "\<dots> = Fin (sqrt (fl * fl + d))"
    using nn by (rule fsqrt_Fin)
  finally have x: "fsqrt (Fin fl * Fin fl + Fin (sqrt d) * Fin (sqrt d)) = Fin (sqrt (fl\<^sup>2 + d))"
    by (simp add: power2_eq_square)
  show "CalculateDepth (NormalizedLandmark (Fin cx) (Fin cy)) (Fin fl) (Fin s) (Fin iw) (Fin ih) =
        Fin (118 / 10 * sqrt (fl\<^sup>2 + ((iw / 2 - cx * iw)\<^sup>2 + (ih / 2 - cy * ih)\<^sup>2)) / s)"
    using assms y x by (simp add: CalculateDepth_def Let_def kIrisSizeInMM_def d_def)
qed

theorem diameter_and_depth_formulas_witness:
  "(0::real) < 20 \<and>
   CalculateIrisDiameter
     [NormalizedLandmark (Fin (3/10)) (Fin (1/2)),
      NormalizedLandmark (Fin (3/10)) (Fin (2/5)), NormalizedLandmark (Fin (3/10)) (Fin (3/5)),
      NormalizedLandmark (Fin (1/5)) (Fin (1/2)), NormalizedLandmark (Fin (2/5)) (Fin (1/2))]
     (100, 100) = Fin 20 \<and>
   CalculateDepth (NormalizedLandmark (Fin (1/2)) (Fin (1/2))) (Fin 500) (Fin 20) (Fin 100) (Fin 100)
     = Fin 295"
  using diameter_and_depth_formulas [where s = 20 and fl = 500 and iw = 100 and ih = 100
      and cx = "1/2" and cy = "1/2" and w = 100 and h = 100
      and c = "NormalizedLandmark (Fin (3/10)) (Fin (1/2))"
      and tx = "3/10" and ty = "2/5" and btx = "3/10" and bty = "3/5"
      and lx = "1/5" and ly = "1/2" and rx = "2/5" and ry = "1/2"]
  by (simp add: sqrt_400 sqrt_250000)

section \<open>Structural errors\<close>

text \<open>
  Claim C5, as the specification states it: a frame whose iris landmark list does not have
  exactly 10 points, or whose image size is absent, makes \<^verbatim>\<open>Process\<close> return an error, send
  no render data and leave every member as it was.  \<^verbatim>\<open>Process\<close> first returns
  \<^verbatim>\<open>absl::OkStatus()\<close> when the iris stream is empty (line 228), before it looks at the image
  size: on a frame with neither packet it reports no error.
\<close>

theorem missing_image_size_without_iris_counterexample:
  "image_size_packet frame_empty = None \<and>
   Process initial_state frame_empty = (initial_state, Inr None)"
  by (simp add: frame_empty_def Process_def)

text \<open>
  Claim C5, amended.  On every frame whose iris packet is present and either does not hold
  exactly 10 landmarks or comes with no image size, \<^verbatim>\<open>Process\<close> returns the failure of the
  \<^verbatim>\<open>RET_CHECK\<close> and hence sends no render data, every member keeps its value, and the next
  call behaves as if the failed call had not happened.
\<close>

theorem structural_error_leaves_members:
  assumes "iris_packet f = Some lds"
    and "length lds \<noteq> 10 \<or> image_size_packet f = None"
  shows "Process st f =
           (st, Inl (RetCheckFailure
              (if length lds \<noteq> 10 then ''Wrong number of iris landmarks''
               else ''!cc->Inputs().Tag(kImageSizeTag).IsEmpty()''))) \<and>
         Process (fst (Process st f)) g = Process st g"
proof -
  have "Process st f =
           (st, Inl (RetCheckFailure
              (if length lds \<noteq> 10 then ''Wrong number of iris landmarks''
               else ''!cc->Inputs().Tag(kImageSizeTag).IsEmpty()'')))"
    using assms by (cases "length lds = 10") (simp_all add: Process_def kNumIrisLandmarksPerEye_def)
  then show ?thesis
    by simp
qed

theorem structural_error_leaves_members_witness:
  "iris_packet frame9 = Some (take 9 iris10) \<and>
   length (take 9 iris10) \<noteq> 10 \<and>
   Process initial_state frame9 =
     (initial_state, Inl (RetCheckFailure ''Wrong number of iris landmarks'')) \<and>
   Process (fst (Process initial_state frame9)) frameA = Process initial_state frameA"
  using structural_error_leaves_members [of frame9 "take 9 iris10" initial_state frameA]
  by (simp add: frame9_def frame_with_def iris10_def)

section \<open>Frames without face landmarks\<close>

text \<open>
  Claim C6.  On a frame with 10 iris landmarks and an image size but no face landmarks,
  \<^verbatim>\<open>Process\<close> succeeds; the render data are the oval and the five points of the left eye,
  the oval and the five points of the right eye, and one text per line of the depth inputs
  (at most two), so no line of the detector is among them; and every member of the
  calculator keeps its value.
\<close>

theorem absent_face_landmarks:
  assumes "iris_packet f = Some lds" and "length lds = 10"
    and "image_size_packet f = Some sz" and "face_landmarks_packet f = None"
  shows "Process st f =
           (st, Inr (Some (eye_annotations (left_eye lds) sz @
                           eye_annotations (right_eye lds) sz @
                           map Text (depth_lines f)))) \<and>
         length (depth_lines f) \<le> 2"
  using assms
  by (simp add: Process_wellformed [of f lds sz] depth_lines_def split: option.split)

theorem absent_face_landmarks_witness:
  "iris_packet frame_no_face = Some iris10 \<and> length iris10 = 10 \<and>
   image_size_packet frame_no_face = Some (100, 100) \<and>
   face_landmarks_packet frame_no_face = None \<and>
   Process initial_state frame_no_face =
     (initial_state,
      Inr (Some [Oval (Fin (49/100)) (Fin (51/100)) (Fin (29/100)) (Fin (31/100)),
                 Point (Fin (3/10)) (Fin (1/2)), Point (Fin (3/10)) (Fin (49/100)),
                 Point (Fin (3/10)) (Fin (51/100)), Point (Fin (29/100)) (Fin (1/2)),
                 Point (Fin (31/100)) (Fin (1/2)),
                 Oval (Fin (49/100)) (Fin (51/100)) (Fin (69/100)) (Fin (71/100)),
                 Point (Fin (7/10)) (Fin (1/2)), Point (Fin (7/10)) (Fin (49/100)),
                 Point (Fin (7/10)) (Fin (51/100)), Point (Fin (69/100)) (Fin (1/2)),
                 Point (Fin (71/100)) (Fin (1/2)),
                 Text [Str ''Left : '', Str '':'', Num (Fin 30), Str '' cm'']]))"
proof -
  have h: "iris_packet frame_no_face = Some iris10" "length iris10 = 10"
    "image_size_packet frame_no_face = Some (100, 100)"
    "face_landmarks_packet frame_no_face = None"
    by (simp_all add: frame_no_face_def frame_with_def iris10_def)
  have d: "depth_lines frame_no_face = [[Str ''Left : '', Str '':'', Num (Fin 30), Str '' cm'']]"
    by (simp add: depth_lines_def frame_no_face_def frame_with_def)
  have e: "eye_annotations (left_eye iris10) (100, 100) =
             [Oval (Fin (49/100)) (Fin (51/100)) (Fin (29/100)) (Fin (31/100)),
              Point (Fin (3/10)) (Fin (1/2)), Point (Fin (3/10)) (Fin (49/100)),
              Point (Fin (3/10)) (Fin (51/100)), Point (Fin (29/100)) (Fin (1/2)),
              Point (Fin (31/100)) (Fin (1/2))]"
    "eye_annotations (right_eye iris10) (100, 100) =
             [Oval (Fin (49/100)) (Fin (51/100)) (Fin (69/100)) (Fin (71/100)),
              Point (Fin (7/10)) (Fin (1/2)), Point (Fin (7/10)) (Fin (49/100)),
              Point (Fin (7/10)) (Fin (51/100)), Point (Fin (69/100)) (Fin (1/2)),
              Point (Fin (71/100)) (Fin (1/2))]"
    by (simp_all add: eye_annotations_def diameter_iris10)
       (simp_all add: left_eye_def right_eye_def iris10_def pt_def)
  show ?thesis
    using absent_face_landmarks [OF h, of initial_state] h d e by simp
qed

section \<open>The four face corners\<close>

text \<open>
  Claim C9.  The specification asks that reading the four corners fails when the face list
  is too small for the indices 263, 362, 133 and 33.  Lines 284 to 289 read them without
  looking at the size of the list, where the iris list is checked at line 236 and the image
  size at line 240.  On \<open>frame_short_face\<close>, whose face list has 100 landmarks, \<^verbatim>\<open>Process\<close>
  reports no failure: it draws four points and carries on with whatever the reads beyond
  the list yield; on \<open>frame9\<close> the check of the iris list does report one.
\<close>

theorem short_face_list_not_rejected:
  "face_landmarks_packet frame_short_face = Some (replicate 100 (pt 0 0)) \<and>
   length (replicate 100 (pt 0 0)) < 363 \<and>
   \<not> isl (snd (Process initial_state frame_short_face)) \<and>
   isl (snd (Process initial_state frame9))"
proof -
  have w: "iris_packet frame_short_face = Some iris10" "length iris10 = 10"
    "image_size_packet frame_short_face = Some (100, 100)"
    by (simp_all add: frame_short_face_def frame_with_def)
  have "\<not> isl (snd (Process initial_state frame_short_face))"
    using w by (rule Process_wellformed_no_failure)
  moreover have "isl (snd (Process initial_state frame9))"
    by (simp add: Process_def frame9_def frame_with_def kNumIrisLandmarksPerEye_def iris10_def)
  ultimately show ?thesis
    by (simp add: frame_short_face_def frame_with_def)
qed

section \<open>The baseline\<close>

text \<open>
  Claim C1, as the specification states it: the baseline is written on the frame on which
  the smoothed corner-to-corner distance of the right eye, \<^verbatim>\<open>plu_dt_a_r\<close>, goes from
  uninitialised to initialised, and never again.  On \<open>frameZ\<close> the two corners of the right
  eye coincide: \<^verbatim>\<open>plu_dt_a_r\<close> goes from the initial \<open>-1\<close> to the value \<open>0\<close>, which the filter
  then treats as history (on the next frame it is smoothed to \<open>0 * 0.9 + 295 * 0.1\<close>, not
  replaced), and the other 17 distances get their first values; yet no baseline value is
  written, because line 519 asks for \<^verbatim>\<open>plu_dt_a_r > 0\<close>.  The baseline is written one frame
  later.
\<close>

theorem baseline_not_written_on_first_value_counterexample:
  "plu_dt_a_r initial_state = Fin (- 1) \<and>
   plu_dt_a_r (run initial_state [frameZ]) = Fin 0 \<and>
   baseline (run initial_state [frameZ]) = baseline initial_state \<and>
   baseline (run initial_state [frameZ]) \<noteq> channels (run initial_state [frameZ]) \<and>
   plu_dt_a_r (run initial_state [frameZ, frameA]) = Fin (59/2) \<and>
   baseline (run initial_state [frameZ, frameA]) = channels (run initial_state [frameZ, frameA])"
proof -
  have z: "plu_dt_a_r (fst (Process initial_state frameZ)) = Fin 0"
    "last_plu_dt_a_r (fst (Process initial_state frameZ)) = Fin (- 1)"
    "plu_iris_size (fst (Process initial_state frameZ)) = Fin 2"
    using after_frameZ by simp_all
  have b: "baseline (fst (Process initial_state frameZ)) = baseline initial_state"
    by (simp add: baseline_Process z)
  have n: "baseline (fst (Process initial_state frameZ)) \<noteq> channels (fst (Process initial_state frameZ))"
    by (simp add: baseline_def channels_def z)
  have a: "plu_dt_a_r (fst (Process (fst (Process initial_state frameZ)) frameA)) = Fin (59/2)"
    by (simp add: Process_frames iris_size_detector a_r_detector a_r_filtered raw_a_r_points smooth_Fin)
  have w: "baseline (fst (Process (fst (Process initial_state frameZ)) frameA)) =
           channels (fst (Process (fst (Process initial_state frameZ)) frameA))"
    by (simp add: baseline_Process [of _ frameA] z a detector_input_frames)
  show ?thesis
    using z b n a w by simp
qed

text \<open>
  Claim C1, amended.  A call of \<^verbatim>\<open>Process\<close> writes the baseline exactly when it runs the
  detector block, \<^verbatim>\<open>last_plu_dt_a_r\<close> is still negative or infinite, and \<^verbatim>\<open>plu_dt_a_r\<close> is
  strictly positive after the update of the frame; it then copies each of the 18 smoothed
  distances into its baseline member, and otherwise leaves all 18 baseline members as they
  are.  Once \<^verbatim>\<open>last_plu_dt_a_r\<close> is positive and finite, no sequence of later frames changes
  any baseline member.
\<close>

theorem baseline_freeze:
  "baseline (fst (Process st f)) =
     (if detector_input f \<noteq> None \<and>
         (last_plu_dt_a_r st < Fin 0 \<or> isinf (last_plu_dt_a_r st)) \<and>
         Fin 0 < plu_dt_a_r (fst (Process st f))
      then channels (fst (Process st f)) else baseline st) \<and>
   (Fin 0 < last_plu_dt_a_r st \<and> \<not> isinf (last_plu_dt_a_r st) \<longrightarrow>
      baseline (run st fs) = baseline st)"
  using baseline_Process [of st f] frozen_run [of st fs] by blast

theorem baseline_freeze_witness:
  "Fin 0 < last_plu_dt_a_r (run initial_state [frameA]) \<and>
   \<not> isinf (last_plu_dt_a_r (run initial_state [frameA])) \<and>
   baseline (run initial_state [frameA]) = channels (run initial_state [frameA]) \<and>
   baseline (run (run initial_state [frameA]) [frameB, frameC]) = baseline (run initial_state [frameA]) \<and>
   last_plu_dt_a_r (run initial_state [frameA]) = Fin 295 \<and>
   plu_dt_a_r (run initial_state [frameA, frameB]) = Fin (1416/5)"
proof -
  have "baseline (fst (Process initial_state frameA)) = channels (fst (Process initial_state frameA))"
    using baseline_freeze [of initial_state frameA "[]"] after_frameA
    by (simp add: detector_input_frames)
  moreover have "baseline (run (run initial_state [frameA]) [frameB, frameC]) =
      baseline (run initial_state [frameA])"
    using baseline_freeze [of "run initial_state [frameA]" frameA "[frameB, frameC]"]
    by (simp only: after_frameA) simp
  ultimately show ?thesis
    using after_frameA after_frameA_frameB by simp
qed

section \<open>The warning counters\<close>

text \<open>
  Claim C3, as the specification states it: over every sequence of frames each warning
  counter is non-decreasing.  The counters are C++ \<^verbatim>\<open>int\<close> and line 490 and its eight
  siblings add 1 with no test of the range.  After \<open>frameA\<close>, every \<open>frameC\<close> has a delta of the
  right eye along x above 6: after \<open>2\<^sup>3\<^sup>1 - 1\<close> of them the counter is \<open>2\<^sup>3\<^sup>1 - 1\<close>, and one more
  takes it to \<open>- 2\<^sup>3\<^sup>1\<close>.
\<close>

theorem counter_wraps_counterexample:
  "sint (warn_delta_plu_r_x_count (run initial_state (frameA # replicate 2147483647 frameC)))
     = 2147483647 \<and>
   sint (warn_delta_plu_r_x_count (run initial_state (frameA # replicate 2147483648 frameC)))
     = - 2147483648"
  unfolding count_after_turns by simp

text \<open>
  Claim C3, amended.  A call of \<^verbatim>\<open>Process\<close> that does not run the detector block leaves the 9
  warning counters as they are; a call that runs it adds 1 to each counter whose delta of
  the frame is above 6.0 and leaves the others, whatever the size of the delta.  Below
  \<open>2\<^sup>3\<^sup>1 - 1\<close> the addition raises the value of the counter by exactly 1, so over every
  sequence of frames short enough for no counter to reach \<open>2\<^sup>3\<^sup>1 - 1\<close> every counter is
  non-decreasing.  \<^verbatim>\<open>Open\<close>, the only other operation, does not touch them.
\<close>

theorem warning_counters:
  "counters (fst (Process st f)) =
     (case detector_input f of
        None \<Rightarrow> counters st
      | Some (p, sz, dl, dr) \<Rightarrow>
          map (\<lambda>(delta, count). if Fin 6 < delta then count + 1 else count)
            (zip (delta_list (calc_deltas (filtered st p sz dl dr))) (counters st))) \<and>
   (sint count < 2147483647 \<longrightarrow>
      sint (warn_incr delta count) = (if Fin 6 < delta then sint count + 1 else sint count)) \<and>
   (list_all (\<lambda>c. sint c + int (length fs) \<le> 2147483647) (counters st) \<longrightarrow>
      list_all2 (\<lambda>c c'. sint c \<le> sint c') (counters st) (counters (run st fs))) \<and>
   fst (Open st) = st"
  using counters_Process [of st f] counters_run_mono [of fs st] sint_incr [of count]
  by (simp add: Open_def warn_incr_def kDeltaStrabismusThresholdInMM_def)

theorem warning_counters_witness:
  "detector_input frameC = Some (pointsC, (100, 100), Fin 2, Fin 2) \<and>
   sint (warn_delta_plu_r_x_count (run initial_state [frameA])) = 0 \<and>
   delta_plu_r_x (calc_deltas (filtered (run initial_state [frameA]) pointsC (100, 100) (Fin 2) (Fin 2)))
     = Fin (236/5) \<and>
   sint (warn_delta_plu_r_x_count (run initial_state [frameA, frameC])) = 1 \<and>
   list_all (\<lambda>c. sint c + int (length [frameA, frameC]) \<le> 2147483647) (counters initial_state) \<and>
   list_all2 (\<lambda>c c'. sint c \<le> sint c')
     (counters initial_state) (counters (run initial_state [frameA, frameC]))"
proof -
  let ?st = "fst (Process initial_state frameA)"
  let ?d = "calc_deltas (filtered ?st pointsC (100, 100) (Fin 2) (Fin 2))"
  have "hd (counters (fst (Process ?st frameC))) =
        hd (map (\<lambda>(delta, count). if Fin 6 < delta then count + 1 else count)
              (zip (delta_list ?d) (counters ?st)))"
    using warning_counters [of ?st frameC] by (simp add: detector_input_frames)
  then have "warn_delta_plu_r_x_count (fst (Process ?st frameC)) =
        (if Fin 6 < delta_plu_r_x ?d then warn_delta_plu_r_x_count ?st + 1
         else warn_delta_plu_r_x_count ?st)"
    by (simp add: counters_def delta_list_def)
  then have one: "warn_delta_plu_r_x_count (fst (Process ?st frameC)) = 1"
    by (simp only: delta_r_x_frameC count_after_frameA) simp
  have small: "list_all (\<lambda>c. sint c + int (length [frameA, frameC]) \<le> 2147483647)
      (counters initial_state)"
    by (simp add: counters_def initial_state_def)
  then have "list_all2 (\<lambda>c c'. sint c \<le> sint c')
      (counters initial_state) (counters (run initial_state [frameA, frameC]))"
    using warning_counters [of initial_state frameA _ _ "[frameA, frameC]"] by blast
  then show ?thesis
    using one small delta_r_x_frameC count_after_frameA by (simp add: detector_input_frames)
qed

section \<open>The smoothing filter\<close>

text \<open>
  Claim C4, as the specification states it: every channel is left unchanged by a raw value
  \<open>r \<le> 0\<close>, is assigned \<open>r\<close> when it is uninitialised or not finite, and is assigned
  \<open>stored * (1 - 0.1) + r * 0.1\<close> otherwise.  Only \<^verbatim>\<open>plu_iris_size\<close> is guarded by a test of
  the raw value (line 318); lines 358 to 464 assign the 18 distances with no such test.  On
  \<open>frameB\<close> the two corners of the right eye are at the same height, the raw vertical
  distance is 0, and the stored 236 becomes 212.4.  And the test of line 320 is
  \<^verbatim>\<open>std::isinf\<close>: a stored NaN, which is not finite, is not replaced by the raw value.
\<close>

theorem zero_distance_decays_counterexample:
  "raw_plu_dt_a_r_y (raw_distances pointsB (100, 100) (Fin (59/10))) = Fin 0 \<and>
   plu_dt_a_r_y (run initial_state [frameA]) = Fin 236 \<and>
   plu_dt_a_r_y (run initial_state [frameA, frameB]) = Fin (1062/5) \<and>
   smooth NaN (Fin 1) = NaN"
proof -
  have "smooth NaN (Fin 1) = NaN"
    by (simp add: smooth_def less_flt_def times_flt_def plus_flt_def)
  then show ?thesis
    by (simp add: evaluate)
qed

text \<open>
  Claim C4, amended.  A frame whose raw aggregate iris size is not above 0 changes no
  member at all, so \<^verbatim>\<open>plu_iris_size\<close> keeps its value.  On a frame that runs the detector
  block, \<^verbatim>\<open>plu_iris_size\<close> and each of the 18 smoothed distances is assigned
  \<open>smooth stored raw\<close> for its raw value of the frame, whatever the sign of a raw distance:
  the raw value itself when the stored value is negative or infinite, and
  \<open>stored * (1 - 0.1) + raw * 0.1\<close> otherwise.
\<close>

theorem filter_update_rule:
  "(case detector_input f of
      None \<Rightarrow> fst (Process st f) = st
    | Some (p, sz, dl, dr) \<Rightarrow>
        Fin 0 < raw_plu_iris_size dl dr \<and>
        plu_iris_size (fst (Process st f)) =
          smooth (plu_iris_size st) (raw_plu_iris_size dl dr) \<and>
        channels (fst (Process st f)) =
          map (\<lambda>(stored, raw). smooth stored raw)
            (zip (channels st)
               (raw_list (raw_distances p sz (kIrisSizeInMM / plu_iris_size (fst (Process st f))))))) \<and>
   (iris_packet f = Some lds \<and> image_size_packet f = Some sz' \<and>
    \<not> Fin 0 < raw_plu_iris_size (diameter (left_eye lds) sz') (diameter (right_eye lds) sz')
    \<longrightarrow> fst (Process st f) = st) \<and>
   smooth stored raw =
     (if stored < Fin 0 \<or> isinf stored then raw
      else stored * (Fin 1 - Fin (1/10)) + raw * Fin (1/10)) \<and>
   (0 \<le> s \<longrightarrow> smooth (Fin s) (Fin r) = Fin (s * (1 - 1/10) + r * (1/10)))"
proof -
  have 1: "(case detector_input f of
      None \<Rightarrow> fst (Process st f) = st
    | Some (p, sz, dl, dr) \<Rightarrow>
        Fin 0 < raw_plu_iris_size dl dr \<and>
        plu_iris_size (fst (Process st f)) =
          smooth (plu_iris_size st) (raw_plu_iris_size dl dr) \<and>
        channels (fst (Process st f)) =
          map (\<lambda>(stored, raw). smooth stored raw)
            (zip (channels st)
               (raw_list (raw_distances p sz (kIrisSizeInMM / plu_iris_size (fst (Process st f)))))))"
  proof (cases "detector_input f")
    case None
    then show ?thesis by (simp add: Process_fst)
  next
    case (Some a)
    then obtain p sz dl dr where i: "detector_input f = Some (p, sz, dl, dr)"
      by (cases a) auto
    show ?thesis
      using detector_input_positive [OF i] channels_detector [of st p sz dl dr]
      by (simp add: i Process_fst iris_size_detector)
  qed
  have 2: "fst (Process st f) = st"
    if "iris_packet f = Some lds" "image_size_packet f = Some sz'"
      "\<not> Fin 0 < raw_plu_iris_size (diameter (left_eye lds) sz') (diameter (right_eye lds) sz')"
  proof -
    have "detector_input f = None"
      using that by (simp add: detector_input_def split: option.split)
    then show ?thesis by (simp add: Process_fst)
  qed
  have 3: "smooth stored raw =
     (if stored < Fin 0 \<or> isinf stored then raw
      else stored * (Fin 1 - Fin (1/10)) + raw * Fin (1/10))"
    by (simp add: smooth_def kDepthWeightUpdate_def)
  have 4: "smooth (Fin s) (Fin r) = Fin (s * (1 - 1/10) + r * (1/10))" if "0 \<le> s"
    using that by (simp add: smooth_def kDepthWeightUpdate_def)
  show ?thesis
    using 1 2 3 4 by blast
qed

theorem filter_update_rule_witness:
  "detector_input frameB = Some (pointsB, (100, 100), Fin 2, Fin 2) \<and>
   plu_iris_size (run initial_state [frameA, frameB]) = smooth (Fin 2) (Fin 2) \<and>
   (0::real) \<le> 2 \<and> smooth (Fin 2) (Fin 2) = Fin 2 \<and>
   detector_input frame_no_face = None \<and>
   run initial_state [frame_no_face] = initial_state \<and>
   iris_packet frame_flat = Some iris_flat \<and>
   image_size_packet frame_flat = Some (100, 100) \<and>
   \<not> Fin 0 < raw_plu_iris_size (diameter (left_eye iris_flat) (100, 100))
                                  (diameter (right_eye iris_flat) (100, 100)) \<and>
   run initial_state [frame_flat] = initial_state"
proof -
  have "plu_iris_size (fst (Process (fst (Process initial_state frameA)) frameB)) =
          smooth (plu_iris_size (fst (Process initial_state frameA))) (raw_plu_iris_size (Fin 2) (Fin 2))"
    using filter_update_rule [where f = frameB and st = "fst (Process initial_state frameA)"]
    by (simp add: detector_input_frames)
  moreover have "smooth (Fin 2) (Fin 2) = Fin (2 * (1 - 1/10) + 2 * (1/10))"
    using filter_update_rule [where s = 2 and r = 2] by simp
  moreover have n: "detector_input frame_no_face = None"
    by (simp add: detector_input_def frame_no_face_def frame_with_def)
  then have "fst (Process initial_state frame_no_face) = initial_state"
    using filter_update_rule [where f = frame_no_face and st = initial_state] by simp
  moreover have z: "diameter (left_eye iris_flat) (100, 100) = Fin 0"
    "diameter (right_eye iris_flat) (100, 100) = Fin 0"
    by (simp_all add: diameter_def left_eye_def right_eye_def iris_flat_def pt_def
        GetLandmarkDepth_def GetDepth_def)
  have h: "iris_packet frame_flat = Some iris_flat" "image_size_packet frame_flat = Some (100, 100)"
    "\<not> Fin 0 < raw_plu_iris_size (diameter (left_eye iris_flat) (100, 100))
                                   (diameter (right_eye iris_flat) (100, 100))"
    by (simp_all add: frame_flat_def frame_with_def z raw_plu_iris_size_def)
  have "fst (Process initial_state frame_flat) = initial_state"
    using filter_update_rule [where f = frame_flat and st = initial_state and lds = iris_flat
        and sz' = "(100, 100)"] h by blast
  ultimately show ?thesis
    using n h by (simp add: detector_input_frames evaluate)
qed

section \<open>The deltas\<close>

text \<open>
  Claim C2, as the specification states it: on every frame where the baseline exists the
  deltas are the differences against the baseline, and the specification freezes the
  baseline before it computes the deltas.  \<^verbatim>\<open>Process\<close> computes the deltas at lines 467 to 487
  and writes the baseline "lastly", at lines 518 to 544.  On \<open>frameA\<close>, sent first, the call
  writes the baseline, so that it exists and the formula against it gives 0, and yet all 9
  deltas of the frame are \<open>-100\<close>.
\<close>

theorem deltas_on_freeze_frame_counterexample:
  "detector_input frameA = Some (pointsA, (100, 100), Fin 2, Fin 2) \<and>
   delta_list (calc_deltas (filtered initial_state pointsA (100, 100) (Fin 2) (Fin 2))) =
     [Fin (- 100), Fin (- 100), Fin (- 100), Fin (- 100), Fin (- 100), Fin (- 100),
      Fin (- 100), Fin (- 100), Fin (- 100)] \<and>
   baseline (run initial_state [frameA]) = channels (run initial_state [frameA]) \<and>
   last_plu_dt_a_r (run initial_state [frameA]) = Fin 295 \<and>
   ((plu_dt_n_r_x (run initial_state [frameA]) - last_plu_dt_n_r_x (run initial_state [frameA])) -
    (plu_dt_t_r_x (run initial_state [frameA]) - last_plu_dt_t_r_x (run initial_state [frameA])))
     * Fin 4 / Fin 2 = Fin 0"
proof -
  have "delta_list (calc_deltas (filtered initial_state pointsA (100, 100) (Fin 2) (Fin 2))) =
     [Fin (- 100), Fin (- 100), Fin (- 100), Fin (- 100), Fin (- 100), Fin (- 100),
      Fin (- 100), Fin (- 100), Fin (- 100)]"
    by (simp add: calc_deltas_def delta_list_def)
  moreover have "baseline (fst (Process initial_state frameA)) =
      channels (fst (Process initial_state frameA))"
    using after_frameA by (simp add: baseline_Process detector_input_frames)
  ultimately show ?thesis
    using after_frameA by (simp add: detector_input_frames evaluate)
qed

text \<open>
  Claim C2, amended.  On every frame that runs the detector block, the 9 deltas are computed
  anew from the members as the filter update of the frame left them.  If the baseline
  existed before the call (\<^verbatim>\<open>last_plu_dt_a_r\<close> is positive) and \<^verbatim>\<open>plu_dt_a_r\<close> is positive
  after the update, each of the 6 deltas of a side and an axis is ((smoothed
  inner-corner-to-centre distance minus its baseline) minus (smoothed
  outer-corner-to-centre distance minus its baseline)) times 4.0 divided by 2, and each of
  the 3 aggregate deltas is the delta of the left side minus that of the right side.
  Otherwise, and so on the frame that writes the baseline, all 9 deltas are \<open>-100\<close>.  These
  deltas are the ones in the lines the call sends.  After frames with finite landmarks
  from the initial members, the second condition follows from the first.
\<close>

theorem deltas_against_baseline:
  "calc_deltas (filtered st p sz dl dr) =
     (let cur = filtered st p sz dl dr;
          d_r_x = ((plu_dt_n_r_x cur - last_plu_dt_n_r_x st) - (plu_dt_t_r_x cur - last_plu_dt_t_r_x st)) * Fin 4 / Fin 2;
          d_l_x = ((plu_dt_n_l_x cur - last_plu_dt_n_l_x st) - (plu_dt_t_l_x cur - last_plu_dt_t_l_x st)) * Fin 4 / Fin 2;
          d_r_y = ((plu_dt_n_r_y cur - last_plu_dt_n_r_y st) - (plu_dt_t_r_y cur - last_plu_dt_t_r_y st)) * Fin 4 / Fin 2;
          d_l_y = ((plu_dt_n_l_y cur - last_plu_dt_n_l_y st) - (plu_dt_t_l_y cur - last_plu_dt_t_l_y st)) * Fin 4 / Fin 2;
          d_r = ((plu_dt_n_r cur - last_plu_dt_n_r st) - (plu_dt_t_r cur - last_plu_dt_t_r st)) * Fin 4 / Fin 2;
          d_l = ((plu_dt_n_l cur - last_plu_dt_n_l st) - (plu_dt_t_l cur - last_plu_dt_t_l st)) * Fin 4 / Fin 2
      in if Fin 0 < last_plu_dt_a_r st \<and> Fin 0 < plu_dt_a_r cur
         then \<lparr> delta_plu_r_x = d_r_x, delta_plu_l_x = d_l_x,
                delta_plu_r_y = d_r_y, delta_plu_l_y = d_l_y,
                delta_plu_r = d_r, delta_plu_l = d_l,
                delta_plu_x = d_l_x - d_r_x, delta_plu_y = d_l_y - d_r_y,
                delta_plu = d_l - d_r \<rparr>
         else \<lparr> delta_plu_r_x = Fin (- 100), delta_plu_l_x = Fin (- 100),
                delta_plu_r_y = Fin (- 100), delta_plu_l_y = Fin (- 100),
                delta_plu_r = Fin (- 100), delta_plu_l = Fin (- 100),
                delta_plu_x = Fin (- 100), delta_plu_y = Fin (- 100),
                delta_plu = Fin (- 100) \<rparr>) \<and>
   (detector_input f = Some (p, sz, dl, dr) \<longrightarrow>
      (\<exists>rd. snd (Process st f) =
         Inr (Some (rd @ map Text (depth_lines f @
           detector_lines (fst (Process st f)) (calc_deltas (filtered st p sz dl dr)) dl dr))))) \<and>
   (list_all finite_frame fs \<and> finite_frame f \<and> detector_input f = Some (p, sz, dl, dr) \<and>
    Fin 0 < last_plu_dt_a_r (run initial_state fs) \<longrightarrow>
      Fin 0 < plu_dt_a_r (filtered (run initial_state fs) p sz dl dr))"
proof -
  have last: "last_plu_dt_n_r_x (filtered st p sz dl dr) = last_plu_dt_n_r_x st"
    "last_plu_dt_t_r_x (filtered st p sz dl dr) = last_plu_dt_t_r_x st"
    "last_plu_dt_n_l_x (filtered st p sz dl dr) = last_plu_dt_n_l_x st"
    "last_plu_dt_t_l_x (filtered st p sz dl dr) = last_plu_dt_t_l_x st"
    "last_plu_dt_n_r_y (filtered st p sz dl dr) = last_plu_dt_n_r_y st"
    "last_plu_dt_t_r_y (filtered st p sz dl dr) = last_plu_dt_t_r_y st"
    "last_plu_dt_n_l_y (filtered st p sz dl dr) = last_plu_dt_n_l_y st"
    "last_plu_dt_t_l_y (filtered st p sz dl dr) = last_plu_dt_t_l_y st"
    "last_plu_dt_n_r (filtered st p sz dl dr) = last_plu_dt_n_r st"
    "last_plu_dt_t_r (filtered st p sz dl dr) = last_plu_dt_t_r st"
    "last_plu_dt_n_l (filtered st p sz dl dr) = last_plu_dt_n_l st"
    "last_plu_dt_t_l (filtered st p sz dl dr) = last_plu_dt_t_l st"
    by (simp_all add: filtered_def update_filters_def Let_def)
  have 1: "calc_deltas (filtered st p sz dl dr) =
     (let cur = filtered st p sz dl dr;
          d_r_x = ((plu_dt_n_r_x cur - last_plu_dt_n_r_x st) - (plu_dt_t_r_x cur - last_plu_dt_t_r_x st)) * Fin 4 / Fin 2;
          d_l_x = ((plu_dt_n_l_x cur - last_plu_dt_n_l_x st) - (plu_dt_t_l_x cur - last_plu_dt_t_l_x st)) * Fin 4 / Fin 2;
          d_r_y = ((plu_dt_n_r_y cur - last_plu_dt_n_r_y st) - (plu_dt_t_r_y cur - last_plu_dt_t_r_y st)) * Fin 4 / Fin 2;
          d_l_y = ((plu_dt_n_l_y cur - last_plu_dt_n_l_y st) - (plu_dt_t_l_y cur - last_plu_dt_t_l_y st)) * Fin 4 / Fin 2;
          d_r = ((plu_dt_n_r cur - last_plu_dt_n_r st) - (plu_dt_t_r cur - last_plu_dt_t_r st)) * Fin 4 / Fin 2;
          d_l = ((plu_dt_n_l cur - last_plu_dt_n_l st) - (plu_dt_t_l cur - last_plu_dt_t_l st)) * Fin 4 / Fin 2
      in if Fin 0 < last_plu_dt_a_r st \<and> Fin 0 < plu_dt_a_r cur
         then \<lparr> delta_plu_r_x = d_r_x, delta_plu_l_x = d_l_x,
                delta_plu_r_y = d_r_y, delta_plu_l_y = d_l_y,
                delta_plu_r = d_r, delta_plu_l = d_l,
                delta_plu_x = d_l_x - d_r_x, delta_plu_y = d_l_y - d_r_y,
                delta_plu = d_l - d_r \<rparr>
         else \<lparr> delta_plu_r_x = Fin (- 100), delta_plu_l_x = Fin (- 100),
                delta_plu_r_y = Fin (- 100), delta_plu_l_y = Fin (- 100),
                delta_plu_r = Fin (- 100), delta_plu_l = Fin (- 100),
                delta_plu_x = Fin (- 100), delta_plu_y = Fin (- 100),
                delta_plu = Fin (- 100) \<rparr>)"
    by (simp add: calc_deltas_def Let_def last kDeltaAdjustInMM_def)
  have 2: "\<exists>rd. snd (Process st f) =
         Inr (Some (rd @ map Text (depth_lines f @
           detector_lines (fst (Process st f)) (calc_deltas (filtered st p sz dl dr)) dl dr)))"
    if "detector_input f = Some (p, sz, dl, dr)"
    using that by (rule Process_snd_detector)
  have 3: "Fin 0 < plu_dt_a_r (filtered (run initial_state fs) p sz dl dr)"
    if "list_all finite_frame fs" "finite_frame f" "detector_input f = Some (p, sz, dl, dr)"
      "Fin 0 < last_plu_dt_a_r (run initial_state fs)"
    using that by (rule a_r_positive_when_frozen)
  show ?thesis
    using 1 2 3 by blast
qed

theorem deltas_against_baseline_witness:
  "list_all finite_frame [frameA] \<and> finite_frame frameC \<and>
   detector_input frameC = Some (pointsC, (100, 100), Fin 2, Fin 2) \<and>
   Fin 0 < last_plu_dt_a_r (run initial_state [frameA]) \<and>
   Fin 0 < plu_dt_a_r (filtered (run initial_state [frameA]) pointsC (100, 100) (Fin 2) (Fin 2)) \<and>
   delta_plu_r_x (calc_deltas (filtered (run initial_state [frameA]) pointsC (100, 100) (Fin 2) (Fin 2)))
     = ((Fin (354/5) - Fin 59) - (Fin (531/5) - Fin 118)) * Fin 4 / Fin 2"
proof -
  let ?st = "run initial_state [frameA]"
  have h: "list_all finite_frame [frameA]" "finite_frame frameC"
    "detector_input frameC = Some (pointsC, (100, 100), Fin 2, Fin 2)"
    by (simp_all add: finite_frames detector_input_frames)
  have l: "Fin 0 < last_plu_dt_a_r ?st"
    by (simp add: evaluate)
  have t: "calc_deltas (filtered ?st pointsC (100, 100) (Fin 2) (Fin 2)) =
     (let st = ?st; p = pointsC; sz = (100, 100); dl = Fin 2; dr = Fin 2 in
     (let cur = filtered st p sz dl dr;
          d_r_x = ((plu_dt_n_r_x cur - last_plu_dt_n_r_x st) - (plu_dt_t_r_x cur - last_plu_dt_t_r_x st)) * Fin 4 / Fin 2;
          d_l_x = ((plu_dt_n_l_x cur - last_plu_dt_n_l_x st) - (plu_dt_t_l_x cur - last_plu_dt_t_l_x st)) * Fin 4 / Fin 2;
          d_r_y = ((plu_dt_n_r_y cur - last_plu_dt_n_r_y st) - (plu_dt_t_r_y cur - last_plu_dt_t_r_y st)) * Fin 4 / Fin 2;
          d_l_y = ((plu_dt_n_l_y cur - last_plu_dt_n_l_y st) - (plu_dt_t_l_y cur - last_plu_dt_t_l_y st)) * Fin 4 / Fin 2;
          d_r = ((plu_dt_n_r cur - last_plu_dt_n_r st) - (plu_dt_t_r cur - last_plu_dt_t_r st)) * Fin 4 / Fin 2;
          d_l = ((plu_dt_n_l cur - last_plu_dt_n_l st) - (plu_dt_t_l cur - last_plu_dt_t_l st)) * Fin 4 / Fin 2
      in if Fin 0 < last_plu_dt_a_r st \<and> Fin 0 < plu_dt_a_r cur
         then \<lparr> delta_plu_r_x = d_r_x, delta_plu_l_x = d_l_x,
                delta_plu_r_y = d_r_y, delta_plu_l_y = d_l_y,
                delta_plu_r = d_r, delta_plu_l = d_l,
                delta_plu_x = d_l_x - d_r_x, delta_plu_y = d_l_y - d_r_y,
                delta_plu = d_l - d_r \<rparr>
         else \<lparr> delta_plu_r_x = Fin (- 100), delta_plu_l_x = Fin (- 100),
                delta_plu_r_y = Fin (- 100), delta_plu_l_y = Fin (- 100),
                delta_plu_r = Fin (- 100), delta_plu_l = Fin (- 100),
                delta_plu_x = Fin (- 100), delta_plu_y = Fin (- 100),
                delta_plu = Fin (- 100) \<rparr>))"
    and c: "Fin 0 < plu_dt_a_r (filtered ?st pointsC (100, 100) (Fin 2) (Fin 2))"
    using deltas_against_baseline [of ?st pointsC "(100, 100)" "Fin 2" "Fin 2" frameC "[frameA]"] h l
    by (simp_all only: Let_def)
  have "delta_plu_r_x (calc_deltas (filtered ?st pointsC (100, 100) (Fin 2) (Fin 2)))
     = ((Fin (354/5) - Fin 59) - (Fin (531/5) - Fin 118)) * Fin 4 / Fin 2"
    unfolding t by (simp add: Let_def evaluate)
  then show ?thesis
    using h l c by simp
qed

section \<open>The aggregate iris size\<close>



end
